theory Spec2Isabelle
  imports Complex_Main "HOL-Library.Sublist"
begin

section \<open>Strings and values of the program\<close>

text \<open>
  The client is TypeScript. Its strings are modelled as \<^typ>\<open>string\<close> over ASCII text:
  \<open>toLowerCase\<close> and the case folding of a regular expression compiled with the \<open>i\<close>
  flag act on the letters \<open>A\<close> to \<open>Z\<close> and \<open>a\<close> to \<open>z\<close>, and every other character
  is left as it is. A field that a JSON document may lack is an \<^typ>\<open>'a option\<close>, with
  \<^const>\<open>None\<close> for \<open>undefined\<close>; a field that is present has its declared type, and
  every entry of a \<open>references\<close> table is an object. A thrown exception is the \<^const>\<open>Inl\<close>
  branch of a sum.
\<close>

datatype js_error = Error string | TypeError string | SyntaxError string

fun message :: "js_error \<Rightarrow> string" where
  "message (Error m) = m"
| "message (TypeError m) = m"
| "message (SyntaxError m) = m"

text \<open>The text that a template literal \<open>${error}\<close> gives for an exception.\<close>

fun errorToString :: "js_error \<Rightarrow> string" where
  "errorToString (Error m) = ''Error: '' @ m"
| "errorToString (TypeError m) = ''TypeError: '' @ m"
| "errorToString (SyntaxError m) = ''SyntaxError: '' @ m"

text \<open>The text that a template literal gives for a string that may be undefined.\<close>

definition templ :: "string option \<Rightarrow> string" where
  "templ v = (case v of None \<Rightarrow> ''undefined'' | Some s \<Rightarrow> s)"

text \<open>Truthiness of a string that may be undefined: the empty string is falsy.\<close>

definition truthy :: "string option \<Rightarrow> bool" where
  "truthy v = (case v of None \<Rightarrow> False | Some s \<Rightarrow> s \<noteq> [])"

text \<open>\<open>v || d\<close> for a string \<open>v\<close> that may be undefined.\<close>

definition orElse :: "string option \<Rightarrow> string \<Rightarrow> string" where
  "orElse v d = (case v of None \<Rightarrow> d | Some s \<Rightarrow> if s = [] then d else s)"

fun join :: "string \<Rightarrow> string list \<Rightarrow> string" where
  "join sep [] = []"
| "join sep [x] = x"
| "join sep (x # y # ys) = x @ sep @ join sep (y # ys)"

definition toLowerChar :: "char \<Rightarrow> char" where
  "toLowerChar c =
     (let n = (of_char c :: nat) in if 65 \<le> n \<and> n \<le> 90 then char_of (n + 32) else c)"

definition toUpperChar :: "char \<Rightarrow> char" where
  "toUpperChar c =
     (let n = (of_char c :: nat) in if 97 \<le> n \<and> n \<le> 122 then char_of (n - 32) else c)"

definition toLowerCase :: "string \<Rightarrow> string" where
  "toLowerCase s = map toLowerChar s"

text \<open>\<open>s.startsWith(q)\<close> and \<open>s.includes(q)\<close>.\<close>

definition startsWith :: "string \<Rightarrow> string \<Rightarrow> bool" where
  "startsWith s q = (take (length q) s = q)"

fun str_includes :: "string \<Rightarrow> string \<Rightarrow> bool" where
  "str_includes [] q = startsWith [] q"
| "str_includes (c # cs) q = (startsWith (c # cs) q \<or> str_includes cs q)"

text \<open>\<open>s.replace(/\*/g, '')\<close>: every star is deleted.\<close>

definition removeStars :: "string \<Rightarrow> string" where
  "removeStars q = filter (\<lambda>c. c \<noteq> CHR ''*'') q"

text \<open>
  \<open>s.replace(/\s+/g, '')\<close>: every white-space character is deleted (tab, line feed,
  vertical tab, form feed, carriage return and space, in ASCII).
\<close>

definition whiteSpace :: "char \<Rightarrow> bool" where
  "whiteSpace c \<longleftrightarrow> c \<in> set [CHR 0x09, CHR 0x0A, CHR 0x0B, CHR 0x0C, CHR 0x0D, CHR 0x20]"

definition removeWhiteSpace :: "string \<Rightarrow> string" where
  "removeWhiteSpace s = filter (\<lambda>c. \<not> whiteSpace c) s"

section \<open>Pattern matcher: \<open>createSearchPattern\<close>\<close>

text \<open>
  \<open>createSearchPattern\<close> builds the source text of a regular expression in three passes
  and hands it to \<open>new RegExp(pattern, 'i')\<close>:
  \<^verbatim>\<open>
  const escaped = query.replace(/[.*+?^${}()|[\]\\]/g, '\\$&');
  const pattern = escaped.replace(/\\\*/g, '.*').replace(/\\\?/g, '.');
  return new RegExp(pattern, 'i');
  \<close>
\<close>

definition backslash :: char where
  "backslash = CHR 0x5C"

text \<open>
  The fourteen characters of the class \<open>[.*+?^${}()|[\]\\]\<close>; they are also the syntax
  characters of the pattern grammar of ECMAScript.
\<close>

definition syntaxCharacter :: "char \<Rightarrow> bool" where
  "syntaxCharacter c \<longleftrightarrow>
     c \<in> set [CHR ''.'', CHR ''*'', CHR ''+'', CHR ''?'', CHR ''^'', CHR ''$'', CHR ''{'',
              CHR ''}'', CHR ''('', CHR '')'', CHR ''|'', CHR ''['', CHR '']'', backslash]"

text \<open>First pass: a backslash is put before every character of the class.\<close>

definition escapeSpecials :: "string \<Rightarrow> string" where
  "escapeSpecials q = concat (map (\<lambda>c. if syntaxCharacter c then [backslash, c] else [c]) q)"

text \<open>
  \<open>s.replace(/ab/g, r)\<close> for a pattern of two literal characters: every occurrence of
  \<open>ab\<close>, found from left to right without overlap, is replaced by \<open>r\<close>.
\<close>

fun replaceAll2 :: "char \<Rightarrow> char \<Rightarrow> string \<Rightarrow> string \<Rightarrow> string" where
  "replaceAll2 a b r (x # y # zs) =
     (if x = a \<and> y = b then r @ replaceAll2 a b r zs else x # replaceAll2 a b r (y # zs))"
| "replaceAll2 a b r xs = xs"

definition patternSource :: "string \<Rightarrow> string" where
  "patternSource query =
     (let escaped = escapeSpecials query
      in replaceAll2 backslash CHR ''?'' ''.'' (replaceAll2 backslash CHR ''*'' ''.*'' escaped))"

text \<open>
  The \<open>RegExp\<close> constructor, on the fragment of the pattern grammar that these passes can
  produce: an atom is a dot, a backslash followed by a syntax character (an identity
  escape), or a character that is not a syntax character; an atom may be followed by one
  star. On every other pattern text the model answers with a \<open>SyntaxError\<close>, which is
  what the constructor does for a dangling backslash or a star with nothing to repeat,
  and is a refusal of the model everywhere else.
\<close>

datatype atom = AnyChar | Lit char

datatype rx_term = One atom | Many atom

type_synonym regexp = "rx_term list"

fun parseAtom :: "string \<Rightarrow> (atom \<times> string) option" where
  "parseAtom [] = None"
| "parseAtom (c # cs) =
     (if c = backslash then
        (case cs of [] \<Rightarrow> None
         | d # ds \<Rightarrow> if syntaxCharacter d then Some (Lit d, ds) else None)
      else if c = CHR ''.'' then Some (AnyChar, cs)
      else if syntaxCharacter c then None
      else Some (Lit c, cs))"

function parseTerms :: "string \<Rightarrow> js_error + regexp" where
  "parseTerms s =
     (if s = [] then Inr []
      else case parseAtom s of
        None \<Rightarrow> Inl (SyntaxError ''Invalid regular expression'')
      | Some (a, rest) \<Rightarrow>
          (case rest of
             [] \<Rightarrow> Inr [One a]
           | c # cs \<Rightarrow>
               if c = CHR ''*''
               then (case parseTerms cs of Inl e \<Rightarrow> Inl e | Inr ts \<Rightarrow> Inr (Many a # ts))
               else (case parseTerms rest of Inl e \<Rightarrow> Inl e | Inr ts \<Rightarrow> Inr (One a # ts))))"
  by pat_completeness auto
termination
  by (relation "measure length")
    (auto elim!: parseAtom.elims split: if_splits list.splits)

declare parseTerms.simps [simp del]

definition createSearchPattern :: "string \<Rightarrow> js_error + regexp" where
  "createSearchPattern query = parseTerms (patternSource query)"

text \<open>
  \<open>pattern.test(title)\<close> for an expression without the \<open>g\<close> flag: the pattern is tried at
  every start position. A dot matches every character but a line terminator (line feed
  and carriage return, in ASCII); with the \<open>i\<close> flag two characters match when their
  upper-case forms are equal. A star is greedy in the engine; whether a match exists does
  not depend on the order in which the lengths of its run are tried.
\<close>

definition lineTerminator :: "char \<Rightarrow> bool" where
  "lineTerminator c \<longleftrightarrow> c = CHR 0x0A \<or> c = CHR 0x0D"

fun atomMatches :: "atom \<Rightarrow> char \<Rightarrow> bool" where
  "atomMatches AnyChar c = (\<not> lineTerminator c)"
| "atomMatches (Lit x) c = (toUpperChar x = toUpperChar c)"

fun matchHere :: "regexp \<Rightarrow> string \<Rightarrow> bool" where
  "matchHere [] s = True"
| "matchHere (One a # ts) [] = False"
| "matchHere (One a # ts) (c # cs) = (atomMatches a c \<and> matchHere ts cs)"
| "matchHere (Many a # ts) [] = matchHere ts []"
| "matchHere (Many a # ts) (c # cs) =
     (matchHere ts (c # cs) \<or> (atomMatches a c \<and> matchHere (Many a # ts) cs))"

fun regexp_test :: "regexp \<Rightarrow> string \<Rightarrow> bool" where
  "regexp_test r [] = matchHere r []"
| "regexp_test r (c # cs) = (matchHere r (c # cs) \<or> regexp_test r cs)"

section \<open>Documents\<close>

record platformEntry =
  name :: "string option"
  introducedAt :: "string option"
  beta :: bool

record fragment =
  fragment_text :: "string option"
  fragment_type :: "string option"

text \<open>
  An entry of a \<open>references\<close> table: a \<open>Technology\<close> of the technology index or a
  reference of a framework document.
\<close>

record node =
  title :: "string option"
  abstract :: "fragment list option"
  url :: "string option"
  kind :: "string option"
  role :: "string option"
  platforms :: "platformEntry list option"

record topicSection =
  section_title :: "string option"
  identifiers :: "string list option"

record metadata =
  meta_title :: "string option"
  meta_symbolKind :: "string option"
  meta_platforms :: "platformEntry list option"

text \<open>
  A JSON document of the upstream API. The \<open>references\<close> table is an association list in
  the order in which \<open>Object.entries\<close> and \<open>Object.values\<close> go through it.
\<close>

record document =
  metadata :: "metadata option"
  doc_abstract :: "fragment list option"
  topicSections :: "topicSection list option"
  references :: "(string \<times> node) list option"

record SearchResult =
  result_title :: string
  description :: string
  path :: "string option"
  framework :: "string option"
  symbolKind :: "string option"
  result_platforms :: string

text \<open>
  The options of a search. \<open>maxResults\<close> is a number of the program, taken from the
  arguments of the tool call without validation: it may be negative and it may have a
  fractional part. It is modelled as a real number. A tool call arrives as JSON, which
  has only finite numbers; the comparisons with a length, the ceiling and the truncation
  that the program applies to it are exact on floating-point numbers, and its division by
  4 is exact as long as it does not underflow.
\<close>

record options =
  symbolType :: "string option"
  platform :: "string option"
  maxResults :: "real option"

definition extractText :: "fragment list option \<Rightarrow> string" where
  "extractText abstract' =
     (case abstract' of
        None \<Rightarrow> []
      | Some items \<Rightarrow> concat (map (\<lambda>item. case fragment_text item of None \<Rightarrow> [] | Some t \<Rightarrow> t) items))"

definition formatPlatforms :: "platformEntry list option \<Rightarrow> string" where
  "formatPlatforms platforms' =
     (case platforms' of
        None \<Rightarrow> ''All platforms''
      | Some ps \<Rightarrow>
          if ps = [] then ''All platforms''
          else join '', ''
                 (map (\<lambda>p. templ (name p) @ '' '' @ templ (introducedAt p) @ ''+''
                            @ (if beta p then '' (Beta)'' else [])) ps))"

section \<open>Reference filter and ranker\<close>

definition matchesSearch :: "node \<Rightarrow> regexp \<Rightarrow> options \<Rightarrow> bool" where
  "matchesSearch ref pattern options' =
     (case title ref of
        None \<Rightarrow> False
      | Some t \<Rightarrow>
          if t = [] then False
          else if \<not> regexp_test pattern t then False
          else if truthy (symbolType options') \<and> kind ref \<noteq> symbolType options' then False
          else (case (platform options', platforms ref) of
                  (Some wanted, Some ps) \<Rightarrow>
                    if wanted = [] then True
                    else list_ex (\<lambda>p. case name p of
                                         None \<Rightarrow> False
                                       | Some n \<Rightarrow> str_includes (toLowerCase n) (toLowerCase wanted))
                           ps
                | _ \<Rightarrow> True))"

definition scoreMatch :: "string \<Rightarrow> string \<Rightarrow> nat" where
  "scoreMatch title' query =
     (let lowerTitle = toLowerCase title';
          lowerQuery = toLowerCase (removeStars query)
      in if lowerTitle = lowerQuery then 0
         else if startsWith lowerTitle lowerQuery then 1
         else if str_includes lowerTitle lowerQuery then 2
         else 3)"

section \<open>Document cache and fetcher\<close>

text \<open>
  The world of the client: its cache, the clock that \<open>Date.now()\<close> reads (milliseconds),
  and the requests sent with \<open>axios.get\<close> so far. The network is a parameter: to the
  requests sent before and a URL it gives the outcome of the request, a document or the
  text of the error that \<open>axios\<close> throws, and the time the request takes. Within one
  operation of the client the clock moves with its requests only.
\<close>

type_synonym url = string

record cacheEntry =
  data :: document
  timestamp :: int

record world =
  cache :: "url \<rightharpoonup> cacheEntry"
  clock :: int
  requests :: "url list"

type_synonym network = "url list \<Rightarrow> url \<Rightarrow> (string + document) \<times> nat"

definition BASE_URL :: string where
  "BASE_URL = ''https://developer.apple.com/tutorials/data''"

definition cacheTimeout :: int where
  "cacheTimeout = 10 * 60 * 1000"

definition axios_get :: "network \<Rightarrow> url \<Rightarrow> world \<Rightarrow> (string + document) \<times> world" where
  "axios_get net u w =
     (case net (requests w) u of
        (outcome, elapsed) \<Rightarrow>
          (outcome, w\<lparr>clock := clock w + int elapsed, requests := requests w @ [u]\<rparr>))"

definition makeRequest :: "network \<Rightarrow> url \<Rightarrow> world \<Rightarrow> (js_error + document) \<times> world" where
  "makeRequest net u w =
     (let hit = (case cache w u of
                   None \<Rightarrow> None
                 | Some cached \<Rightarrow>
                     if clock w - timestamp cached < cacheTimeout then Some (data cached) else None)
      in case hit of
           Some d \<Rightarrow> (Inr d, w)
         | None \<Rightarrow>
             (case axios_get net u w of
                (Inr d, w') \<Rightarrow>
                  (Inr d, w'\<lparr>cache := (cache w')(u \<mapsto> \<lparr>data = d, timestamp = clock w'\<rparr>)\<rparr>)
              | (Inl err, w') \<Rightarrow>
                  (Inl (Error (''Failed to fetch documentation: '' @ err)), w')))"

definition getTechnologies ::
  "network \<Rightarrow> world \<Rightarrow> (js_error + (string \<times> node) list) \<times> world" where
  "getTechnologies net w =
     (case makeRequest net (BASE_URL @ ''/documentation/technologies.json'') w of
        (Inr d, w') \<Rightarrow> (Inr (case references d of None \<Rightarrow> [] | Some rs \<Rightarrow> rs), w')
      | (Inl e, w') \<Rightarrow> (Inl e, w'))"

definition getFramework ::
  "network \<Rightarrow> string option \<Rightarrow> world \<Rightarrow> (js_error + document) \<times> world" where
  "getFramework net frameworkName w =
     makeRequest net (BASE_URL @ ''/documentation/'' @ templ frameworkName @ ''.json'') w"

definition getSymbol :: "network \<Rightarrow> string \<Rightarrow> world \<Rightarrow> (js_error + document) \<times> world" where
  "getSymbol net path' w =
     (let cleanPath = (if startsWith path' ''/'' then drop 1 path' else path')
      in makeRequest net (BASE_URL @ ''/'' @ cleanPath @ ''.json'') w)"

section \<open>Framework search\<close>

text \<open>The search result that \<open>searchFramework\<close> pushes for an accepted reference.\<close>

definition toSearchResult :: "string option \<Rightarrow> document \<Rightarrow> node \<Rightarrow> string \<Rightarrow> SearchResult" where
  "toSearchResult frameworkName framework' ref t =
     \<lparr>result_title = t,
      description = extractText (case abstract ref of None \<Rightarrow> Some [] | Some a \<Rightarrow> Some a),
      path = url ref,
      framework = frameworkName,
      symbolKind = kind ref,
      result_platforms =
        formatPlatforms
          (case platforms ref of
             Some ps \<Rightarrow> Some ps
           | None \<Rightarrow> (case metadata framework' of None \<Rightarrow> None | Some m \<Rightarrow> meta_platforms m))\<rparr>"

text \<open>
  The body of the \<open>forEach\<close> over the references: nothing happens once \<open>maxResults\<close>
  results are there, and an accepted reference is pushed. A reference without a title is
  rejected by \<open>matchesSearch\<close>.
\<close>

definition collect ::
  "string option \<Rightarrow> document \<Rightarrow> regexp \<Rightarrow> options \<Rightarrow> real \<Rightarrow> SearchResult list
     \<Rightarrow> string \<times> node \<Rightarrow> SearchResult list" where
  "collect frameworkName framework' searchPattern options' maxResults' results entry =
     (let ref = snd entry
      in if maxResults' \<le> of_nat (length results) then results
         else if matchesSearch ref searchPattern options'
         then (case title ref of
                 None \<Rightarrow> results
               | Some t \<Rightarrow> results @ [toSearchResult frameworkName framework' ref t])
         else results)"

text \<open>
  \<open>results.sort((a, b) => scoreMatch(a.title, query) - scoreMatch(b.title, query))\<close>:
  the sort of an array is stable, and the comparison is by a numeric key.
\<close>

definition sortByScore :: "string \<Rightarrow> SearchResult list \<Rightarrow> SearchResult list" where
  "sortByScore query results = sort_key (\<lambda>r. scoreMatch (result_title r) query) results"

definition searchFramework ::
  "network \<Rightarrow> string option \<Rightarrow> string \<Rightarrow> options \<Rightarrow> world
     \<Rightarrow> (js_error + SearchResult list) \<times> world" where
  "searchFramework net frameworkName query options' w =
     (let maxResults' = (case maxResults options' of None \<Rightarrow> 20 | Some m \<Rightarrow> m);
          failed = (\<lambda>error. Error (''Framework search failed for '' @ templ frameworkName
                                   @ '': '' @ errorToString error))
      in case getFramework net frameworkName w of
           (Inl error, w') \<Rightarrow> (Inl (failed error), w')
         | (Inr framework', w') \<Rightarrow>
             (case createSearchPattern query of
                Inl error \<Rightarrow> (Inl (failed error), w')
              | Inr searchPattern \<Rightarrow>
                  (case references framework' of
                     None \<Rightarrow>
                       (Inl (failed (TypeError ''Cannot convert undefined or null to object'')), w')
                   | Some refs \<Rightarrow>
                       (Inr (sortByScore query
                               (foldl (collect frameworkName framework' searchPattern options'
                                         maxResults') [] refs)), w'))))"

section \<open>Global search\<close>

text \<open>\<open>Math.ceil(maxResults / 4)\<close>.\<close>

definition ceilQuarter :: "real \<Rightarrow> int" where
  "ceilQuarter m = \<lceil>m / 4\<rceil>"

text \<open>
  \<open>results.slice(0, maxResults)\<close>: the end is truncated towards zero to an integer, and a
  negative end counts from the end of the array.
\<close>

definition truncate :: "real \<Rightarrow> int" where
  "truncate m = (if m < 0 then \<lceil>m\<rceil> else \<lfloor>m\<rfloor>)"

definition slice0 :: "'a list \<Rightarrow> real \<Rightarrow> 'a list" where
  "slice0 xs m =
     (let k = truncate m
      in if k < 0 then take (nat (int (length xs) + k)) xs else take (nat k) xs)"

text \<open>The \<open>for\<close> loop of \<open>searchGlobal\<close> over the candidate frameworks.\<close>

fun searchEach ::
  "network \<Rightarrow> string \<Rightarrow> options \<Rightarrow> real \<Rightarrow> node list \<Rightarrow> SearchResult list \<Rightarrow> world
     \<Rightarrow> SearchResult list \<times> world" where
  "searchEach net query options' maxResults' [] results w = (results, w)"
| "searchEach net query options' maxResults' (framework' # rest) results w =
     (if maxResults' \<le> of_nat (length results) then (results, w)
      else case searchFramework net (title framework') query
                  \<lparr>symbolType = symbolType options', platform = platform options',
                   maxResults = Some (of_int (ceilQuarter maxResults'))\<rparr> w of
             (Inr frameworkResults, w') \<Rightarrow>
               searchEach net query options' maxResults' rest (results @ frameworkResults) w'
           | (Inl error, w') \<Rightarrow>
               searchEach net query options' maxResults' rest results w')"

definition isFramework :: "node \<Rightarrow> bool" where
  "isFramework tech \<longleftrightarrow> kind tech = Some ''symbol'' \<and> role tech = Some ''collection''"

definition searchGlobal ::
  "network \<Rightarrow> string \<Rightarrow> options \<Rightarrow> world \<Rightarrow> (js_error + SearchResult list) \<times> world" where
  "searchGlobal net query options' w =
     (let maxResults' = (case maxResults options' of None \<Rightarrow> 50 | Some m \<Rightarrow> m)
      in case getTechnologies net w of
           (Inl error, w') \<Rightarrow>
             (Inl (Error (''Global search failed: '' @ errorToString error)), w')
         | (Inr technologies, w') \<Rightarrow>
             (let frameworks = filter isFramework (map snd technologies);
                  searchFrameworks = take 20 frameworks
              in case searchEach net query options' maxResults' searchFrameworks [] w' of
                   (results, w'') \<Rightarrow> (Inr (slice0 results maxResults'), w'')))"

section \<open>Tool handlers for a documentation lookup\<close>

text \<open>
  What a tool call answers. The text of an answer is a rendering of the values carried
  here; the Markdown around them is not modelled, and of a symbol page only the header
  is.
\<close>

datatype toolResponse =
    SymbolDocumentation string string string string
  | FrameworkDetected string string string string string "(string option \<times> nat) list"
  | SymbolNotFound string

datatype ErrorCode = MethodNotFound | InternalError

datatype McpError = McpError ErrorCode string

definition metadataTitle :: "document \<Rightarrow> string option" where
  "metadataTitle d = (case metadata d of None \<Rightarrow> None | Some m \<Rightarrow> meta_title m)"

definition metadataSymbolKind :: "document \<Rightarrow> string option" where
  "metadataSymbolKind d = (case metadata d of None \<Rightarrow> None | Some m \<Rightarrow> meta_symbolKind m)"

definition metadataPlatforms :: "document \<Rightarrow> platformEntry list option" where
  "metadataPlatforms d = (case metadata d of None \<Rightarrow> None | Some m \<Rightarrow> meta_platforms m)"

definition renderSymbol :: "document \<Rightarrow> toolResponse" where
  "renderSymbol d =
     SymbolDocumentation (orElse (metadataTitle d) ''Symbol'')
       (orElse (metadataSymbolKind d) ''Unknown'')
       (formatPlatforms (metadataPlatforms d))
       (extractText (doc_abstract d))"

text \<open>The handler \<open>handleGetSymbol\<close> of the TypeScript source of the server.\<close>

definition handleGetSymbol ::
  "network \<Rightarrow> string \<Rightarrow> world \<Rightarrow> (js_error + toolResponse) \<times> world" where
  "handleGetSymbol net path' w =
     (case getSymbol net path' w of
        (Inr d, w1) \<Rightarrow> (Inr (renderSymbol d), w1)
      | (Inl error, w1) \<Rightarrow> (Inl error, w1))"

text \<open>
  The handlers of the distributed build of the server: \<open>handleGetDocumentation\<close>,
  \<open>checkIfTechnology\<close> and \<open>handleTechnologyFallback\<close>. The loop of \<open>checkIfTechnology\<close>
  over the technologies is \<open>findTechnology\<close>.
\<close>

fun findTechnology :: "string \<Rightarrow> string \<Rightarrow> node list \<Rightarrow> string option" where
  "findTechnology potentialFramework cleanPath [] = None"
| "findTechnology potentialFramework cleanPath (tech # rest) =
     (case title tech of
        None \<Rightarrow> findTechnology potentialFramework cleanPath rest
      | Some t \<Rightarrow>
          if t = [] then findTechnology potentialFramework cleanPath rest
          else if toLowerCase t = toLowerCase potentialFramework
                  \<or> toLowerCase t = toLowerCase cleanPath then Some t
          else if removeWhiteSpace (toLowerCase t) = removeWhiteSpace (toLowerCase potentialFramework)
                  \<or> removeWhiteSpace (toLowerCase t) = removeWhiteSpace (toLowerCase cleanPath)
          then Some t
          else findTechnology potentialFramework cleanPath rest)"

text \<open>\<open>path.replace(/^documentation\//, '')\<close> and the first part of \<open>split('/')\<close>.\<close>

definition cleanPathOf :: "string \<Rightarrow> string" where
  "cleanPathOf path' =
     (if startsWith path' ''documentation/'' then drop (length ''documentation/'') path'
      else path')"

definition firstSegment :: "string \<Rightarrow> string" where
  "firstSegment s = takeWhile (\<lambda>c. c \<noteq> CHR ''/'') s"

definition checkIfTechnology :: "network \<Rightarrow> string \<Rightarrow> world \<Rightarrow> string option \<times> world" where
  "checkIfTechnology net path' w =
     (case getTechnologies net w of
        (Inl error, w1) \<Rightarrow> (None, w1)
      | (Inr technologies, w1) \<Rightarrow>
          (let cleanPath = cleanPathOf path';
               potentialFramework = firstSegment cleanPath
           in (findTechnology potentialFramework cleanPath (map snd technologies), w1)))"

definition handleTechnologyFallback ::
  "network \<Rightarrow> string \<Rightarrow> string \<Rightarrow> world \<Rightarrow> toolResponse \<times> world" where
  "handleTechnologyFallback net frameworkName originalPath w =
     (case getFramework net (Some frameworkName) w of
        (Inl error, w1) \<Rightarrow> (SymbolNotFound originalPath, w1)
      | (Inr d, w1) \<Rightarrow>
          (case topicSections d of
             None \<Rightarrow> (SymbolNotFound originalPath, w1)
           | Some sections \<Rightarrow>
               (FrameworkDetected (orElse (metadataTitle d) frameworkName) frameworkName
                  originalPath (formatPlatforms (metadataPlatforms d))
                  (extractText (doc_abstract d))
                  (map (\<lambda>s. (section_title s,
                              case identifiers s of None \<Rightarrow> 0 | Some ids \<Rightarrow> length ids))
                     sections), w1)))"

definition handleGetDocumentation ::
  "network \<Rightarrow> string \<Rightarrow> world \<Rightarrow> (js_error + toolResponse) \<times> world" where
  "handleGetDocumentation net path' w =
     (case getSymbol net path' w of
        (Inr d, w1) \<Rightarrow> (Inr (renderSymbol d), w1)
      | (Inl error, w1) \<Rightarrow>
          (case checkIfTechnology net path' w1 of
             (Some frameworkName, w2) \<Rightarrow>
               (case handleTechnologyFallback net frameworkName path' w2 of
                  (response, w3) \<Rightarrow> (Inr response, w3))
           | (None, w2) \<Rightarrow> (Inl error, w2)))"

text \<open>
  The request handler of \<open>setupToolHandlers\<close> at a documentation lookup: an exception of
  the tool's handler is thrown again as an \<open>McpError\<close>.
\<close>

definition toMcpError :: "js_error \<Rightarrow> McpError" where
  "toMcpError error = McpError InternalError (''Error executing tool: '' @ message error)"

definition callGetSymbol ::
  "network \<Rightarrow> string \<Rightarrow> world \<Rightarrow> (McpError + toolResponse) \<times> world" where
  "callGetSymbol net path' w =
     (case handleGetSymbol net path' w of
        (Inr response, w1) \<Rightarrow> (Inr response, w1)
      | (Inl error, w1) \<Rightarrow> (Inl (toMcpError error), w1))"

definition callGetDocumentation ::
  "network \<Rightarrow> string \<Rightarrow> world \<Rightarrow> (McpError + toolResponse) \<times> world" where
  "callGetDocumentation net path' w =
     (case handleGetDocumentation net path' w of
        (Inr response, w1) \<Rightarrow> (Inr response, w1)
      | (Inl error, w1) \<Rightarrow> (Inl (toMcpError error), w1))"

section \<open>Notions of the specification\<close>

text \<open>
  The scoring tiers as the specification words them, and the query with both wildcard
  characters stripped; kept apart from \<^const>\<open>scoreMatch\<close> to compare the two.
\<close>

definition stripWildcards_spec :: "string \<Rightarrow> string" where
  "stripWildcards_spec q = filter (\<lambda>c. c \<noteq> CHR ''*'' \<and> c \<noteq> CHR ''?'') q"

definition score_tiers :: "string \<Rightarrow> string \<Rightarrow> nat" where
  "score_tiers t q =
     (if t = q then 0 else if prefix q t then 1 else if sublist q t then 2 else 3)"

text \<open>
  A glob, as the specification words it: a star stands for zero or more characters, a
  question mark for exactly one, and every other character for itself in either case.
  The characters a wildcard may stand for are the parameter \<open>w\<close>. The match is of the whole
  text; \<open>globMatchesSomewhere\<close> is the unanchored match, of some part of the title.
\<close>

fun globMatches :: "(char \<Rightarrow> bool) \<Rightarrow> string \<Rightarrow> string \<Rightarrow> bool" where
  "globMatches w [] t = (t = [])"
| "globMatches w (p # ps) t =
     (if p = CHR ''*''
      then (\<exists>k \<in> {..length t}. list_all w (take k t) \<and> globMatches w ps (drop k t))
      else case t of
             [] \<Rightarrow> False
           | c # cs \<Rightarrow>
               (if p = CHR ''?'' then w c else toLowerChar c = toLowerChar p)
               \<and> globMatches w ps cs)"

definition globMatchesSomewhere :: "(char \<Rightarrow> bool) \<Rightarrow> string \<Rightarrow> string \<Rightarrow> bool" where
  "globMatchesSomewhere w q title' \<longleftrightarrow>
     (\<exists>i \<in> {..length title'}. \<exists>k \<in> {..length title' - i}.
        globMatches w q (take k (drop i title')))"

definition anyCharacter :: "char \<Rightarrow> bool" where
  "anyCharacter c = True"

definition notLineTerminator :: "char \<Rightarrow> bool" where
  "notLineTerminator c = (\<not> lineTerminator c)"

text \<open>What one character of the query becomes in the pattern text and in the expression.\<close>

definition starUnit :: "char \<Rightarrow> string" where
  "starUnit c =
     (if c = CHR ''*'' then ''.*'' else if syntaxCharacter c then [backslash, c] else [c])"

definition globUnit :: "char \<Rightarrow> string" where
  "globUnit c =
     (if c = CHR ''*'' then ''.*'' else if c = CHR ''?'' then ''.''
      else if syntaxCharacter c then [backslash, c] else [c])"

definition globTerm :: "char \<Rightarrow> rx_term" where
  "globTerm c =
     (if c = CHR ''*'' then Many AnyChar else if c = CHR ''?'' then One AnyChar else One (Lit c))"

text \<open>
  The platform filter as the specification words it: the entry carries a platform record
  whose name contains the wanted platform, in either case.
\<close>

definition carriesPlatform :: "node \<Rightarrow> string \<Rightarrow> bool" where
  "carriesPlatform ref wanted \<longleftrightarrow>
     (case platforms ref of
        None \<Rightarrow> False
      | Some ps \<Rightarrow>
          list_ex (\<lambda>p. case name p of
                         None \<Rightarrow> False
                       | Some n \<Rightarrow> sublist (toLowerCase wanted) (toLowerCase n)) ps)"

text \<open>
  The entries that framework search accepts, in the order of the reference table, the
  result made of an entry, and the score of a result.
\<close>

definition accepts :: "string \<Rightarrow> options \<Rightarrow> node \<Rightarrow> bool" where
  "accepts query options' ref \<longleftrightarrow>
     (case createSearchPattern query of
        Inl e \<Rightarrow> False
      | Inr pattern \<Rightarrow> matchesSearch ref pattern options')"

definition resultOf :: "string option \<Rightarrow> document \<Rightarrow> node \<Rightarrow> SearchResult" where
  "resultOf frameworkName framework' ref =
     toSearchResult frameworkName framework' ref (case title ref of None \<Rightarrow> [] | Some t \<Rightarrow> t)"

definition score :: "string \<Rightarrow> SearchResult \<Rightarrow> nat" where
  "score query r = scoreMatch (result_title r) query"

text \<open>
  Global search as the specification words it: the candidate frameworks are visited in
  order while the number of results gathered is below \<open>maxResults\<close>, each with framework
  search under the sub-cap, the least integer that is not below a quarter of
  \<open>maxResults\<close>; \<open>visits\<close> is the list of the frameworks visited, each with the outcome of
  its search, and \<open>batch\<close> is what an outcome contributes.
\<close>

definition batch :: "js_error + SearchResult list \<Rightarrow> SearchResult list" where
  "batch outcome = (case outcome of Inl e \<Rightarrow> [] | Inr rs \<Rightarrow> rs)"

fun visits ::
  "network \<Rightarrow> string \<Rightarrow> options \<Rightarrow> real \<Rightarrow> node list \<Rightarrow> nat \<Rightarrow> world
     \<Rightarrow> (node \<times> (js_error + SearchResult list)) list" where
  "visits net query options' m [] n w = []"
| "visits net query options' m (fw # rest) n w =
     (if m \<le> of_nat n then []
      else case searchFramework net (title fw) query
                  \<lparr>symbolType = symbolType options', platform = platform options',
                   maxResults = Some (of_int \<lceil>m / 4\<rceil>)\<rparr> w of
             (outcome, w1) \<Rightarrow>
               (fw, outcome) # visits net query options' m rest (n + length (batch outcome)) w1)"

definition candidates :: "(string \<times> node) list \<Rightarrow> node list" where
  "candidates technologies =
     take 20 (filter (\<lambda>tech. kind tech = Some ''symbol'' \<and> role tech = Some ''collection'')
                (map snd technologies))"

text \<open>
  Detection as the specification words it: the title is compared with the cleaned path
  and with its first segment, in either case, as they are or with all white space removed.
\<close>

definition titleMatches :: "string \<Rightarrow> string \<Rightarrow> bool" where
  "titleMatches path' t \<longleftrightarrow>
     (let whole = toLowerCase (cleanPathOf path');
          first = toLowerCase (firstSegment (cleanPathOf path'));
          t' = toLowerCase t
      in t' = first \<or> t' = whole
         \<or> removeWhiteSpace t' = removeWhiteSpace first
         \<or> removeWhiteSpace t' = removeWhiteSpace whole)"

definition detectable :: "string \<Rightarrow> node \<Rightarrow> bool" where
  "detectable path' tech \<longleftrightarrow>
     (case title tech of None \<Rightarrow> False | Some t \<Rightarrow> t \<noteq> [] \<and> titleMatches path' t)"

fun isFrameworkDetected :: "toolResponse \<Rightarrow> bool" where
  "isFrameworkDetected (FrameworkDetected t fw p pl d ss) = True"
| "isFrameworkDetected other = False"

text \<open>
  The cap of a search, \<open>maxResults\<close> or the default of the operation; and a cache entry
  within its time to live, the one that \<open>makeRequest\<close> answers from.
\<close>

definition effectiveMax :: "real \<Rightarrow> options \<Rightarrow> real" where
  "effectiveMax d options' = (case maxResults options' of None \<Rightarrow> d | Some m \<Rightarrow> m)"

definition fresh :: "world \<Rightarrow> url \<Rightarrow> bool" where
  "fresh w u \<longleftrightarrow>
     (case cache w u of None \<Rightarrow> False | Some e \<Rightarrow> clock w - timestamp e < cacheTimeout)"

text \<open>
  A visit whose framework search returned, and the results gathered from a list of
  visits, in the order of the visits.
\<close>

definition succeeded :: "node \<times> (js_error + SearchResult list) \<Rightarrow> bool" where
  "succeeded v = (case snd v of Inl e \<Rightarrow> False | Inr rs \<Rightarrow> True)"

definition gathered :: "(node \<times> (js_error + SearchResult list)) list \<Rightarrow> SearchResult list" where
  "gathered vs = concat (map (\<lambda>v. batch (snd v)) vs)"

section \<open>A small upstream for the examples\<close>

text \<open>
  A technology index with three frameworks and an article, a SwiftUI document and a
  Foundation document. Every other URL, the one of UIKit among them, fails.
\<close>

definition technology :: "string \<Rightarrow> string \<Rightarrow> string \<Rightarrow> node" where
  "technology t k r =
     \<lparr>title = Some t, abstract = None, url = None, kind = Some k, role = Some r,
      platforms = None\<rparr>"

definition reference :: "string \<Rightarrow> string \<Rightarrow> platformEntry list option \<Rightarrow> node" where
  "reference t k ps =
     \<lparr>title = Some t, abstract = None, url = Some (''/documentation/'' @ t), kind = Some k,
      role = Some ''symbol'', platforms = ps\<rparr>"

definition iOS :: platformEntry where
  "iOS = \<lparr>name = Some ''iOS'', introducedAt = Some ''13.0'', beta = False\<rparr>"

definition macOS :: platformEntry where
  "macOS = \<lparr>name = Some ''macOS'', introducedAt = Some ''10.15'', beta = False\<rparr>"

definition exampleIndex :: document where
  "exampleIndex =
     \<lparr>metadata = None, doc_abstract = None, topicSections = None,
      references = Some [(''t1'', technology ''SwiftUI'' ''symbol'' ''collection''),
                         (''t2'', technology ''Swift Book'' ''article'' ''article''),
                         (''t3'', technology ''UIKit'' ''symbol'' ''collection''),
                         (''t4'', technology ''Foundation'' ''symbol'' ''collection'')]\<rparr>"

definition exampleSwiftUI :: document where
  "exampleSwiftUI =
     \<lparr>metadata = Some \<lparr>meta_title = Some ''SwiftUI'', meta_symbolKind = None,
                        meta_platforms = Some [iOS]\<rparr>,
      doc_abstract = Some [\<lparr>fragment_text = Some ''Declare the user interface.'',
                             fragment_type = Some ''text''\<rparr>],
      topicSections = Some [\<lparr>section_title = Some ''Views'',
                              identifiers = Some [''r1'', ''r2'']\<rparr>],
      references = Some [(''r1'', reference ''AnyView'' ''struct'' None),
                         (''r2'', reference ''View'' ''protocol'' (Some [iOS])),
                         (''r3'', reference ''Text'' ''struct'' (Some [macOS])),
                         (''r4'', reference ''ViewBuilder'' ''struct'' None)]\<rparr>"

definition exampleFoundation :: document where
  "exampleFoundation =
     \<lparr>metadata = None, doc_abstract = None, topicSections = None,
      references = Some [(''f1'', reference ''NSViewController'' ''class'' None)]\<rparr>"

definition exampleNet :: network where
  "exampleNet sent u =
     (if u = BASE_URL @ ''/documentation/technologies.json'' then (Inr exampleIndex, 40)
      else if u = BASE_URL @ ''/documentation/SwiftUI.json'' then (Inr exampleSwiftUI, 40)
      else if u = BASE_URL @ ''/documentation/Foundation.json'' then (Inr exampleFoundation, 40)
      else (Inl ''AxiosError: Request failed with status code 404'', 40))"

definition startWorld :: world where
  "startWorld = \<lparr>cache = Map.empty, clock = 0, requests = []\<rparr>"

definition plainOptions :: "real \<Rightarrow> options" where
  "plainOptions m = \<lparr>symbolType = None, platform = None, maxResults = Some m\<rparr>"

definition indexURL :: url where
  "indexURL = BASE_URL @ ''/documentation/technologies.json''"

text \<open>
  The world after the failed request for the symbol document of the path \<open>SwiftUI\<close>, and
  after the request for the technology index that follows it.
\<close>

definition afterSymbol :: world where
  "afterSymbol = \<lparr>cache = Map.empty, clock = 40, requests = [BASE_URL @ ''/SwiftUI.json'']\<rparr>"

definition afterIndex :: world where
  "afterIndex =
     \<lparr>cache = [indexURL \<mapsto> \<lparr>data = exampleIndex, timestamp = 80\<rparr>], clock = 80,
      requests = [BASE_URL @ ''/SwiftUI.json'', indexURL]\<rparr>"

section \<open>Facts about the string functions\<close>

lemma startsWith_prefix: "startsWith s q \<longleftrightarrow> prefix q s"
  unfolding startsWith_def
  by (metis append_eq_conv_conj prefix_def take_is_prefix)

lemma includes_sublist: "str_includes s q \<longleftrightarrow> sublist q s"
  by (induction s) (auto simp: startsWith_prefix sublist_Cons_right)

lemma removeStars_only_stars: "set q \<subseteq> {CHR ''*''} \<Longrightarrow> removeStars q = []"
  unfolding removeStars_def by (induction q) auto

section \<open>Facts about the pattern matcher\<close>

lemma of_char_toLowerChar:
  "(of_char (toLowerChar c) :: nat) =
     (if 65 \<le> (of_char c :: nat) \<and> (of_char c :: nat) \<le> 90 then of_char c + 32 else of_char c)"
  by (simp add: toLowerChar_def Let_def)

lemma of_char_toUpperChar:
  "(of_char (toUpperChar c) :: nat) =
     (if 97 \<le> (of_char c :: nat) \<and> (of_char c :: nat) \<le> 122 then of_char c - 32 else of_char c)"
proof (cases "97 \<le> (of_char c :: nat) \<and> (of_char c :: nat) \<le> 122")
  case True
  then have "(of_char c - 32 :: nat) < 256" by arith
  with True show ?thesis by (simp add: toUpperChar_def Let_def)
next
  case False
  then show ?thesis by (auto simp: toUpperChar_def Let_def)
qed

lemma fold_codes:
  fixes n m :: nat
  shows "((if 97 \<le> n \<and> n \<le> 122 then n - 32 else n) = (if 97 \<le> m \<and> m \<le> 122 then m - 32 else m))
     \<longleftrightarrow> ((if 65 \<le> n \<and> n \<le> 90 then n + 32 else n) = (if 65 \<le> m \<and> m \<le> 90 then m + 32 else m))"
  by (simp split: if_splits) arith

lemma upper_eq_iff_lower_eq: "toUpperChar a = toUpperChar b \<longleftrightarrow> toLowerChar a = toLowerChar b"
proof -
  have "toUpperChar a = toUpperChar b
        \<longleftrightarrow> (of_char (toUpperChar a) :: nat) = of_char (toUpperChar b)"
    by simp
  also have "\<dots> \<longleftrightarrow> (of_char (toLowerChar a) :: nat) = of_char (toLowerChar b)"
    unfolding of_char_toLowerChar of_char_toUpperChar by (rule fold_codes)
  also have "\<dots> \<longleftrightarrow> toLowerChar a = toLowerChar b"
    by simp
  finally show ?thesis .
qed

lemma replaceAll2_skip:
  "\<not> (x = a \<and> (\<exists>zs. xs = b # zs)) \<Longrightarrow> replaceAll2 a b r (x # xs) = x # replaceAll2 a b r xs"
  by (cases xs) auto

lemma escapeSpecials_Cons:
  "escapeSpecials (c # q) = (if syntaxCharacter c then [backslash, c] else [c]) @ escapeSpecials q"
  by (simp add: escapeSpecials_def)

lemma escapeSpecials_no_star_head: "escapeSpecials q \<noteq> CHR ''*'' # zs"
  by (cases q) (auto simp: escapeSpecials_def syntaxCharacter_def backslash_def)

lemma star_pass:
  "replaceAll2 backslash CHR ''*'' ''.*'' (escapeSpecials q) = concat (map starUnit q)"
proof (induction q)
  case Nil
  show ?case by (simp add: escapeSpecials_def)
next
  case (Cons c q)
  show ?case
  proof (cases "syntaxCharacter c")
    case False
    then have "c \<noteq> backslash" by (auto simp: syntaxCharacter_def)
    with False Cons show ?thesis
      by (simp add: escapeSpecials_Cons replaceAll2_skip starUnit_def syntaxCharacter_def)
  next
    case True
    show ?thesis
    proof (cases "c = CHR ''*''")
      case True
      with Cons show ?thesis by (simp add: escapeSpecials_Cons starUnit_def syntaxCharacter_def)
    next
      case False
      have "replaceAll2 backslash CHR ''*'' ''.*'' (c # escapeSpecials q)
            = c # replaceAll2 backslash CHR ''*'' ''.*'' (escapeSpecials q)"
        by (rule replaceAll2_skip) (simp add: escapeSpecials_no_star_head)
      with False \<open>syntaxCharacter c\<close> Cons show ?thesis
        by (simp add: escapeSpecials_Cons starUnit_def)
    qed
  qed
qed

lemma starUnits_no_question_head: "concat (map starUnit q) \<noteq> CHR ''?'' # zs"
proof (induction q)
  case Nil
  show ?case by simp
next
  case (Cons c q)
  show ?case by (auto simp: starUnit_def backslash_def syntaxCharacter_def)
qed

lemma question_pass:
  "replaceAll2 backslash CHR ''?'' ''.'' (concat (map starUnit q)) = concat (map globUnit q)"
proof (induction q)
  case Nil
  show ?case by simp
next
  case (Cons c q)
  define rest where "rest = concat (map starUnit q)"
  define fin where "fin = concat (map globUnit q)"
  let ?R = "replaceAll2 backslash CHR ''?'' ''.''"
  have IH: "?R rest = fin"
    using Cons by (simp add: rest_def fin_def)
  have dot: "?R (CHR ''.'' # xs) = CHR ''.'' # ?R xs" for xs
    by (rule replaceAll2_skip) (simp add: backslash_def)
  have star: "?R (CHR ''*'' # xs) = CHR ''*'' # ?R xs" for xs
    by (rule replaceAll2_skip) (simp add: backslash_def)
  have tail: "?R (x # rest) = x # ?R rest" for x
    unfolding rest_def by (rule replaceAll2_skip) (simp add: starUnits_no_question_head)
  have "?R (starUnit c @ rest) = globUnit c @ fin"
  proof (cases "c = CHR ''*''")
    case True
    then show ?thesis by (simp add: starUnit_def globUnit_def dot star IH)
  next
    case notstar: False
    show ?thesis
    proof (cases "c = CHR ''?''")
      case True
      then show ?thesis by (simp add: starUnit_def globUnit_def syntaxCharacter_def IH)
    next
      case False
      have "?R (backslash # c # rest) = backslash # ?R (c # rest)"
        by (rule replaceAll2_skip) (simp add: False)
      with False notstar show ?thesis
        by (simp add: starUnit_def globUnit_def tail IH)
    qed
  qed
  then show ?case by (simp add: rest_def fin_def)
qed

lemma patternSource_units: "patternSource q = concat (map globUnit q)"
  by (simp add: patternSource_def star_pass question_pass)

lemma parseTerms_Nil: "parseTerms [] = Inr []"
  by (simp add: parseTerms.simps)

lemma parseTerms_one:
  assumes "parseAtom s = Some (a, rest)" and "\<And>zs. rest \<noteq> CHR ''*'' # zs"
  shows "parseTerms s = (case parseTerms rest of Inl e \<Rightarrow> Inl e | Inr ts \<Rightarrow> Inr (One a # ts))"
proof -
  from assms(1) have "s \<noteq> []" by auto
  with assms show ?thesis
    by (subst parseTerms.simps) (auto simp: parseTerms_Nil split: list.splits)
qed

lemma parseTerms_many:
  assumes "parseAtom s = Some (a, CHR ''*'' # rest)"
  shows "parseTerms s = (case parseTerms rest of Inl e \<Rightarrow> Inl e | Inr ts \<Rightarrow> Inr (Many a # ts))"
proof -
  from assms have "s \<noteq> []" by auto
  with assms show ?thesis
    by (subst parseTerms.simps) simp
qed

lemma globUnits_no_star_head: "concat (map globUnit q) \<noteq> CHR ''*'' # zs"
  by (cases q) (auto simp: globUnit_def backslash_def)

lemma parseTerms_units: "parseTerms (concat (map globUnit q)) = Inr (map globTerm q)"
proof (induction q)
  case Nil
  show ?case by (simp add: parseTerms_Nil)
next
  case (Cons c q)
  define rest where "rest = concat (map globUnit q)"
  have IH: "parseTerms rest = Inr (map globTerm q)"
    using Cons by (simp add: rest_def)
  have nostar: "rest \<noteq> CHR ''*'' # zs" for zs
    unfolding rest_def by (rule globUnits_no_star_head)
  have "parseTerms (globUnit c @ rest) = Inr (globTerm c # map globTerm q)"
  proof (cases "c = CHR ''*''")
    case True
    have "parseAtom (''.*'' @ rest) = Some (AnyChar, CHR ''*'' # rest)"
      by (simp add: backslash_def)
    from parseTerms_many [OF this] True show ?thesis
      by (simp add: globUnit_def globTerm_def IH)
  next
    case notstar: False
    show ?thesis
    proof (cases "c = CHR ''?''")
      case True
      have "parseAtom (''.'' @ rest) = Some (AnyChar, rest)"
        by (simp add: backslash_def)
      from parseTerms_one [OF this nostar] True show ?thesis
        by (simp add: globUnit_def globTerm_def IH)
    next
      case notq: False
      show ?thesis
      proof (cases "syntaxCharacter c")
        case True
        then have "parseAtom ([backslash, c] @ rest) = Some (Lit c, rest)"
          by simp
        from parseTerms_one [OF this nostar] True notstar notq show ?thesis
          by (simp add: globUnit_def globTerm_def IH)
      next
        case False
        then have "c \<noteq> backslash" and "c \<noteq> CHR ''.''"
          by (auto simp: syntaxCharacter_def)
        with False have "parseAtom ([c] @ rest) = Some (Lit c, rest)"
          by simp
        from parseTerms_one [OF this nostar] False notstar notq show ?thesis
          by (simp add: globUnit_def globTerm_def IH)
      qed
    qed
  qed
  then show ?case by (simp add: rest_def)
qed

lemma createSearchPattern_eq: "createSearchPattern q = Inr (map globTerm q)"
  by (simp add: createSearchPattern_def patternSource_units parseTerms_units)

lemma ex_le_Suc_shift: "(\<exists>k\<le>Suc n. P k) \<longleftrightarrow> P 0 \<or> (\<exists>k\<le>n. P (Suc k))"
proof
  assume "\<exists>k\<le>Suc n. P k"
  then obtain k where k: "k \<le> Suc n" "P k" by blast
  show "P 0 \<or> (\<exists>k\<le>n. P (Suc k))"
  proof (cases k)
    case 0
    with k show ?thesis by simp
  next
    case (Suc j)
    with k show ?thesis by auto
  qed
next
  assume "P 0 \<or> (\<exists>k\<le>n. P (Suc k))"
  then show "\<exists>k\<le>Suc n. P k" by auto
qed

lemma matchHere_many:
  "matchHere (Many a # ts) s \<longleftrightarrow>
     (\<exists>k\<le>length s. list_all (atomMatches a) (take k s) \<and> matchHere ts (drop k s))"
proof (induction s)
  case Nil
  show ?case by simp
next
  case (Cons c cs)
  show ?case
    by (auto simp: Cons.IH ex_le_Suc_shift)
qed

lemma atomMatches_AnyChar: "atomMatches AnyChar c = notLineTerminator c"
  by (simp add: notLineTerminator_def)

lemma matchHere_glob:
  "matchHere (map globTerm q) s \<longleftrightarrow>
     (\<exists>k\<le>length s. globMatches notLineTerminator q (take k s))"
proof (induction q arbitrary: s)
  case Nil
  show ?case by auto
next
  case (Cons p ps)
  note IH = Cons.IH
  show ?case
  proof (cases "p = CHR ''*''")
    case True
    have am: "atomMatches AnyChar = notLineTerminator"
      by (rule ext) (simp add: notLineTerminator_def)
    have "matchHere (map globTerm (p # ps)) s \<longleftrightarrow>
          (\<exists>j\<le>length s. list_all notLineTerminator (take j s)
             \<and> (\<exists>k\<le>length s - j. globMatches notLineTerminator ps (take k (drop j s))))"
      using True by (simp add: globTerm_def matchHere_many am IH)
    also have "\<dots> \<longleftrightarrow> (\<exists>k\<le>length s. globMatches notLineTerminator (p # ps) (take k s))"
    proof
      assume "\<exists>j\<le>length s. list_all notLineTerminator (take j s)
             \<and> (\<exists>k\<le>length s - j. globMatches notLineTerminator ps (take k (drop j s)))"
      then obtain j k where jk: "j \<le> length s" "list_all notLineTerminator (take j s)"
        "k \<le> length s - j" "globMatches notLineTerminator ps (take k (drop j s))"
        by blast
      have "take j (take (j + k) s) = take j s"
        by (simp add: min_def)
      moreover have "drop j (take (j + k) s) = take k (drop j s)"
        by (simp add: drop_take)
      moreover have "j \<le> length (take (j + k) s)"
        using jk by simp
      ultimately have "globMatches notLineTerminator (p # ps) (take (j + k) s)"
        using True jk by (auto intro!: bexI [of _ j])
      moreover have "j + k \<le> length s" using jk by simp
      ultimately show "\<exists>k\<le>length s. globMatches notLineTerminator (p # ps) (take k s)"
        by blast
    next
      assume "\<exists>k\<le>length s. globMatches notLineTerminator (p # ps) (take k s)"
      then obtain n where n: "n \<le> length s" "globMatches notLineTerminator (p # ps) (take n s)"
        by blast
      then obtain j where j: "j \<le> n" "list_all notLineTerminator (take j (take n s))"
        "globMatches notLineTerminator ps (drop j (take n s))"
        using True by (auto simp: min_def split: if_splits)
      have "take j (take n s) = take j s"
        using j by (simp add: min_def)
      moreover have "drop j (take n s) = take (n - j) (drop j s)"
        by (simp add: drop_take)
      ultimately show "\<exists>j\<le>length s. list_all notLineTerminator (take j s)
             \<and> (\<exists>k\<le>length s - j. globMatches notLineTerminator ps (take k (drop j s)))"
        using j n by (intro exI [of _ j]) (auto intro!: exI [of _ "n - j"])
    qed
    finally show ?thesis .
  next
    case False
    then have gt: "globTerm p = (if p = CHR ''?'' then One AnyChar else One (Lit p))"
      by (simp add: globTerm_def)
    show ?thesis
    proof (cases s)
      case Nil
      with False show ?thesis by (simp add: gt)
    next
      case (Cons c cs)
      have "matchHere (map globTerm (p # ps)) (c # cs) \<longleftrightarrow>
            (if p = CHR ''?'' then notLineTerminator c else toLowerChar c = toLowerChar p)
            \<and> (\<exists>k\<le>length cs. globMatches notLineTerminator ps (take k cs))"
        by (auto simp: gt IH atomMatches_AnyChar upper_eq_iff_lower_eq
            simp del: atomMatches.simps(1))
      also have "\<dots> \<longleftrightarrow>
            (\<exists>k\<le>length (c # cs). globMatches notLineTerminator (p # ps) (take k (c # cs)))"
        using False by (auto simp: ex_le_Suc_shift)
      finally show ?thesis by (simp only: Cons)
    qed
  qed
qed

lemma regexp_test_drop: "regexp_test r t \<longleftrightarrow> (\<exists>i\<le>length t. matchHere r (drop i t))"
proof (induction t)
  case Nil
  show ?case by simp
next
  case (Cons c cs)
  show ?case by (simp add: Cons.IH ex_le_Suc_shift)
qed

lemma regexp_test_glob:
  "regexp_test (map globTerm q) t \<longleftrightarrow> globMatchesSomewhere notLineTerminator q t"
  by (simp add: regexp_test_drop matchHere_glob globMatchesSomewhere_def Bex_def)

lemma globMatches_literal:
  "\<forall>c\<in>set q. c \<noteq> CHR ''*'' \<and> c \<noteq> CHR ''?'' \<Longrightarrow>
     globMatches w q t \<longleftrightarrow> toLowerCase t = toLowerCase q"
proof (induction q arbitrary: t)
  case Nil
  show ?case by (simp add: toLowerCase_def)
next
  case (Cons p ps)
  then show ?case
    by (cases t) (auto simp: toLowerCase_def)
qed

lemma sublist_take_drop:
  "sublist xs ys \<longleftrightarrow> (\<exists>i\<le>length ys. \<exists>k\<le>length ys - i. take k (drop i ys) = xs)"
proof
  assume "sublist xs ys"
  then obtain ps ss where "ys = ps @ xs @ ss"
    by (auto simp: sublist_def)
  then have "length ps \<le> length ys" "length xs \<le> length ys - length ps"
    "take (length xs) (drop (length ps) ys) = xs"
    by simp_all
  then show "\<exists>i\<le>length ys. \<exists>k\<le>length ys - i. take k (drop i ys) = xs"
    by blast
next
  assume "\<exists>i\<le>length ys. \<exists>k\<le>length ys - i. take k (drop i ys) = xs"
  then obtain i k where "take k (drop i ys) = xs" by blast
  then have "ys = take i ys @ xs @ drop k (drop i ys)"
    by (metis append_take_drop_id)
  then show "sublist xs ys"
    unfolding sublist_def by blast
qed

lemma globMatchesSomewhere_literal:
  assumes "\<forall>c\<in>set q. c \<noteq> CHR ''*'' \<and> c \<noteq> CHR ''?''"
  shows "globMatchesSomewhere w q t \<longleftrightarrow> sublist (toLowerCase q) (toLowerCase t)"
proof -
  have "globMatchesSomewhere w q t \<longleftrightarrow>
        (\<exists>i\<le>length t. \<exists>k\<le>length t - i. toLowerCase (take k (drop i t)) = toLowerCase q)"
    by (simp add: globMatchesSomewhere_def Bex_def globMatches_literal [OF assms])
  also have "\<dots> \<longleftrightarrow> sublist (toLowerCase q) (toLowerCase t)"
    unfolding sublist_take_drop by (simp add: toLowerCase_def take_map drop_map)
  finally show ?thesis .
qed

section \<open>Facts about the filter, the searches and the cache\<close>

lemma matchesSearch_title:
  "matchesSearch ref pattern options' \<Longrightarrow> \<exists>t. title ref = Some t \<and> t \<noteq> []"
  by (auto simp: matchesSearch_def split: option.splits if_splits)

lemma cap_reached: "(m::real) \<le> of_nat n \<longleftrightarrow> nat \<lceil>m\<rceil> \<le> n"
proof -
  have "m \<le> of_nat n \<longleftrightarrow> m \<le> of_int (int n)" by simp
  also have "\<dots> \<longleftrightarrow> \<lceil>m\<rceil> \<le> int n" by (simp only: ceiling_le_iff)
  also have "\<dots> \<longleftrightarrow> nat \<lceil>m\<rceil> \<le> n" by (simp add: nat_le_iff)
  finally show ?thesis .
qed

lemma collect_step:
  "collect fn fw pat opts m acc entry =
     (if m \<le> of_nat (length acc) then acc
      else if matchesSearch (snd entry) pat opts then acc @ [resultOf fn fw (snd entry)]
      else acc)"
  by (auto simp: collect_def resultOf_def Let_def dest: matchesSearch_title split: option.splits)

lemma foldl_collect:
  "foldl (collect fn fw pat opts m) acc refs =
     acc @ map (resultOf fn fw)
             (take (nat \<lceil>m\<rceil> - length acc)
                (filter (\<lambda>ref. matchesSearch ref pat opts) (map snd refs)))"
proof (induction refs arbitrary: acc)
  case Nil
  show ?case by simp
next
  case (Cons entry refs)
  let ?f = "collect fn fw pat opts m"
  let ?ok = "\<lambda>ref. matchesSearch ref pat opts"
  have step: "foldl ?f acc (entry # refs) =
      ?f acc entry @ map (resultOf fn fw)
        (take (nat \<lceil>m\<rceil> - length (?f acc entry)) (filter ?ok (map snd refs)))"
    by (simp only: foldl_Cons Cons.IH)
  show ?case
  proof (cases "m \<le> of_nat (length acc)")
    case True
    then have same: "?f acc entry = acc"
      by (simp add: collect_step)
    from True cap_reached [of m "length acc"] have "nat \<lceil>m\<rceil> - length acc = 0"
      by (simp only: diff_is_0_eq)
    with step same show ?thesis by simp
  next
    case False
    with cap_reached [of m "length acc"] have "\<not> nat \<lceil>m\<rceil> \<le> length acc"
      by blast
    then have "length acc < nat \<lceil>m\<rceil>"
      by (simp only: not_le)
    then obtain k where k: "nat \<lceil>m\<rceil> - length acc = Suc k"
      by (metis Suc_diff_Suc diff_zero zero_less_diff less_imp_Suc_add add_diff_cancel_left')
    show ?thesis
    proof (cases "?ok (snd entry)")
      case True
      with False have "?f acc entry = acc @ [resultOf fn fw (snd entry)]"
        by (simp add: collect_step)
      moreover from k have "nat \<lceil>m\<rceil> - Suc (length acc) = k" by simp
      ultimately show ?thesis using step k True by simp
    next
      case no: False
      with False have "?f acc entry = acc"
        by (simp add: collect_step)
      with step no show ?thesis by simp
    qed
  qed
qed

lemma sortByScore_score: "sortByScore query rs = sort_key (score query) rs"
  by (simp add: sortByScore_def score_def [abs_def])

lemma searchFramework_fetched:
  assumes "getFramework net frameworkName w = (Inr framework', w1)"
    and "references framework' = Some refs"
  shows "searchFramework net frameworkName query options' w =
     (Inr (sort_key (score query)
             (map (resultOf frameworkName framework')
                (take (nat \<lceil>effectiveMax 20 options'\<rceil>)
                   (filter (accepts query options') (map snd refs))))), w1)"
  using assms
  by (simp add: searchFramework_def createSearchPattern_eq foldl_collect sortByScore_score
      effectiveMax_def accepts_def [abs_def] Let_def)

lemma example_getFramework:
  "fst (getFramework exampleNet (Some ''SwiftUI'') startWorld) = Inr exampleSwiftUI"
  by (simp add: getFramework_def makeRequest_def axios_get_def exampleNet_def startWorld_def
      BASE_URL_def templ_def)

lemma example_references:
  "references exampleSwiftUI = Some [(''r1'', reference ''AnyView'' ''struct'' None),
                         (''r2'', reference ''View'' ''protocol'' (Some [iOS])),
                         (''r3'', reference ''Text'' ''struct'' (Some [macOS])),
                         (''r4'', reference ''ViewBuilder'' ''struct'' None)]"
  by (simp add: exampleSwiftUI_def)

lemma makeRequest_fresh:
  "fresh w u \<Longrightarrow> \<exists>e. cache w u = Some e \<and> makeRequest net u w = (Inr (data e), w)"
  by (auto simp: fresh_def makeRequest_def split: option.splits)

lemma makeRequest_not_fresh:
  "\<not> fresh w u \<Longrightarrow>
     makeRequest net u w =
       (case axios_get net u w of
          (Inr d, w1) \<Rightarrow> (Inr d, w1\<lparr>cache := (cache w1)(u \<mapsto> \<lparr>data = d, timestamp = clock w1\<rparr>)\<rparr>)
        | (Inl err, w1) \<Rightarrow> (Inl (Error (''Failed to fetch documentation: '' @ err)), w1))"
  by (auto simp: fresh_def makeRequest_def split: option.splits)

lemma axios_get_world:
  "axios_get net u w = (outcome, w1) \<Longrightarrow>
     requests w1 = requests w @ [u] \<and> cache w1 = cache w \<and> clock w \<le> clock w1
     \<and> outcome = fst (net (requests w) u)"
  by (auto simp: axios_get_def split: prod.splits)

lemma example_first:
  "makeRequest exampleNet indexURL startWorld =
     (Inr exampleIndex,
      \<lparr>cache = [indexURL \<mapsto> \<lparr>data = exampleIndex, timestamp = 40\<rparr>], clock = 40,
       requests = [indexURL]\<rparr>)"
  by (simp add: makeRequest_def axios_get_def exampleNet_def startWorld_def indexURL_def)

lemma gathered_simps:
  "gathered [] = []"
  "gathered (v # vs) = batch (snd v) @ gathered vs"
  by (simp_all add: gathered_def)

lemma gathered_succeeded: "gathered (filter succeeded vs) = gathered vs"
  by (induction vs) (auto simp: gathered_simps succeeded_def batch_def split: sum.splits)

lemma searchEach_visits:
  "fst (searchEach net q opts m fws results w) =
     results @ gathered (visits net q opts m fws (length results) w)"
proof (induction fws arbitrary: results w)
  case Nil
  show ?case by (simp add: gathered_simps)
next
  case (Cons fw rest)
  show ?case
  proof (cases "m \<le> of_nat (length results)")
    case True
    then show ?thesis by (simp add: gathered_simps)
  next
    case False
    then show ?thesis
      by (auto simp: gathered_simps Cons.IH batch_def ceilQuarter_def
          split: prod.splits sum.splits)
  qed
qed

lemma visits_nothing: "m \<le> of_nat n \<Longrightarrow> visits net q opts m fws n w = []"
  by (cases fws) simp_all







lemma take_floor_cap: "of_nat (length (take (nat \<lfloor>m\<rfloor>) xs)) \<le> max 0 (m::real)"
proof (cases "0 \<le> \<lfloor>m\<rfloor>")
  case True
  have "of_nat (length (take (nat \<lfloor>m\<rfloor>) xs)) \<le> (of_nat (nat \<lfloor>m\<rfloor>) :: real)"
    by (simp only: of_nat_le_iff) simp
  also from True have "\<dots> = of_int \<lfloor>m\<rfloor>" by simp
  also have "\<dots> \<le> m" by (rule of_int_floor_le)
  finally show ?thesis by simp
next
  case False
  then show ?thesis by simp
qed

lemma searchGlobal_fetched:
  assumes "getTechnologies net w = (Inr technologies, w1)"
  shows "fst (searchGlobal net q opts w) =
     Inr (take (nat \<lfloor>effectiveMax 50 opts\<rfloor>)
            (gathered (visits net q opts (effectiveMax 50 opts) (candidates technologies) 0 w1)))"
proof -
  let ?m = "effectiveMax 50 opts"
  let ?vs = "visits net q opts ?m (candidates technologies) 0 w1"
  have cands: "take 20 (filter isFramework (map snd technologies)) = candidates technologies"
    by (simp add: candidates_def isFramework_def [abs_def])
  have loop: "fst (searchEach net q opts ?m (candidates technologies) [] w1) = gathered ?vs"
    using searchEach_visits [of net q opts ?m "candidates technologies" "[]" w1] by simp
  have cut: "slice0 (gathered ?vs) ?m = take (nat \<lfloor>?m\<rfloor>) (gathered ?vs)"
  proof (cases "?m < 0")
    case True
    then have "?vs = []" by (simp add: visits_nothing)
    then show ?thesis by (simp add: slice0_def Let_def gathered_simps)
  next
    case False
    then have "truncate ?m = \<lfloor>?m\<rfloor>" and "0 \<le> \<lfloor>?m\<rfloor>"
      by (simp_all add: truncate_def)
    then show ?thesis by (simp add: slice0_def Let_def)
  qed
  obtain rs w2 where each: "searchEach net q opts ?m (candidates technologies) [] w1 = (rs, w2)"
    by (cases "searchEach net q opts ?m (candidates technologies) [] w1")
  with loop have rs: "rs = gathered ?vs" by simp
  have "searchGlobal net q opts w = (Inr (slice0 rs ?m), w2)"
    using assms cands each by (simp add: searchGlobal_def effectiveMax_def Let_def)
  with rs cut show ?thesis by simp
qed

lemma searchGlobal_failed:
  "getTechnologies net w = (Inl e, w1) \<Longrightarrow>
     searchGlobal net q opts w = (Inl (Error (''Global search failed: '' @ errorToString e)), w1)"
  by (simp add: searchGlobal_def Let_def)

lemma example_getTechnologies:
  "fst (getTechnologies exampleNet startWorld) =
     Inr [(''t1'', technology ''SwiftUI'' ''symbol'' ''collection''),
          (''t2'', technology ''Swift Book'' ''article'' ''article''),
          (''t3'', technology ''UIKit'' ''symbol'' ''collection''),
          (''t4'', technology ''Foundation'' ''symbol'' ''collection'')]"
  using example_first by (simp add: getTechnologies_def indexURL_def exampleIndex_def)

lemma findTechnology_find:
  "findTechnology (firstSegment (cleanPathOf p)) (cleanPathOf p) techs =
     (case find (detectable p) techs of None \<Rightarrow> None | Some tech \<Rightarrow> title tech)"
  by (induction techs)
    (auto simp: detectable_def titleMatches_def Let_def split: option.splits)

lemma getSymbol_failure:
  "getSymbol net p w = (Inl error, w1) \<Longrightarrow>
     \<exists>err. error = Error (''Failed to fetch documentation: '' @ err)"
  by (auto simp: getSymbol_def makeRequest_def Let_def split: option.splits if_splits prod.splits sum.splits)

lemma find_detectable_title:
  "find (detectable p) techs = Some tech \<Longrightarrow> \<exists>t. title tech = Some t \<and> t \<noteq> []"
  by (auto simp: find_Some_iff detectable_def split: option.splits)

lemma example_getSymbol:
  "getSymbol exampleNet ''SwiftUI'' startWorld =
     (Inl (Error ''Failed to fetch documentation: AxiosError: Request failed with status code 404''),
      afterSymbol)"
  by (simp add: getSymbol_def makeRequest_def axios_get_def exampleNet_def startWorld_def
      afterSymbol_def BASE_URL_def startsWith_def)

lemma example_index_after:
  "getTechnologies exampleNet afterSymbol =
     (Inr [(''t1'', technology ''SwiftUI'' ''symbol'' ''collection''),
          (''t2'', technology ''Swift Book'' ''article'' ''article''),
          (''t3'', technology ''UIKit'' ''symbol'' ''collection''),
          (''t4'', technology ''Foundation'' ''symbol'' ''collection'')], afterIndex)"
  by (simp add: getTechnologies_def makeRequest_def axios_get_def exampleNet_def afterSymbol_def
      afterIndex_def indexURL_def exampleIndex_def)

lemma example_detect:
  "find (detectable ''SwiftUI'')
     (map snd [(''t1'', technology ''SwiftUI'' ''symbol'' ''collection''),
          (''t2'', technology ''Swift Book'' ''article'' ''article''),
          (''t3'', technology ''UIKit'' ''symbol'' ''collection''),
          (''t4'', technology ''Foundation'' ''symbol'' ''collection'')])
   = Some (technology ''SwiftUI'' ''symbol'' ''collection'')"
  by (simp add: detectable_def titleMatches_def technology_def cleanPathOf_def firstSegment_def
      startsWith_def)

lemma example_framework_after:
  "fst (getFramework exampleNet (title (technology ''SwiftUI'' ''symbol'' ''collection'')) afterIndex)
     = Inr exampleSwiftUI"
  by (simp add: getFramework_def makeRequest_def axios_get_def exampleNet_def afterIndex_def
      indexURL_def BASE_URL_def templ_def technology_def)

section \<open>Claims about the ranker\<close>

text \<open>
  C3, as amended. For every title and query, \<open>scoreMatch\<close> is the tier of the lower-cased
  title against the lower-cased query from which the stars, and only the stars, have been
  removed: 0 when they are equal, else 1 when the title starts with it, else 2 when the
  title contains it, else 3. A question mark stays in the query.
\<close>

theorem scoreMatch_tiers:
  "scoreMatch title' query = score_tiers (toLowerCase title') (toLowerCase (removeStars query))"
  by (simp add: scoreMatch_def score_tiers_def startsWith_prefix includes_sublist)

theorem scoreMatch_tiers_witness:
  "scoreMatch ''MySwiftUIHelper'' ''*SwiftUI*'' = 2
   \<and> score_tiers (toLowerCase ''MySwiftUIHelper'') (toLowerCase (removeStars ''*SwiftUI*'')) = 2"
proof -
  have "scoreMatch ''MySwiftUIHelper'' ''*SwiftUI*'' = 2"
    by code_simp
  then show ?thesis
    using scoreMatch_tiers [of "''MySwiftUIHelper''" "''*SwiftUI*''"] by simp
qed

text \<open>
  C3, as stated, strips the question mark too. At the title \<open>ab\<close> and the query \<open>a?b\<close> the
  stated tiers give 0 and the code gives 3.
\<close>

theorem scoreMatch_question_mark_counterexample:
  "score_tiers (toLowerCase ''ab'') (toLowerCase (stripWildcards_spec ''a?b'')) = 0
   \<and> scoreMatch ''ab'' ''a?b'' = 3"
  by (simp add: scoreMatch_def score_tiers_def toLowerCase_def toLowerChar_def
      removeStars_def stripWildcards_spec_def startsWith_def)

text \<open>
  C10. For a query made of stars only, \<open>scoreMatch\<close> is 1 on every non-empty title and 0
  on the empty title; it is never 3.
\<close>

theorem scoreMatch_pure_wildcard:
  "set query \<subseteq> {CHR ''*''} \<Longrightarrow> scoreMatch title' query = (if title' = [] then 0 else 1)"
  by (simp add: scoreMatch_def removeStars_only_stars toLowerCase_def startsWith_def)

theorem scoreMatch_pure_wildcard_witness:
  "set ''*'' \<subseteq> {CHR ''*''} \<and> scoreMatch ''Anything'' ''*'' = 1 \<and> scoreMatch [] ''**'' = 0"
  using scoreMatch_pure_wildcard [of "''*''" "''Anything''"]
    scoreMatch_pure_wildcard [of "''**''" "[]"]
  by simp

section \<open>Claims about the pattern matcher\<close>

text \<open>
  C4, as amended. For every query, \<open>createSearchPattern\<close> compiles it to a
  case-insensitive, unanchored predicate on titles in which a star matches zero or more
  characters other than line terminators, a question mark matches exactly one character
  other than a line terminator, and every other character matches itself literally; and
  for every query without star and question mark the predicate holds on a title exactly
  when the query is a case-insensitive substring of the title.
\<close>

theorem createSearchPattern_glob:
  "\<exists>r. createSearchPattern query = Inr r
     \<and> (\<forall>title. regexp_test r title \<longleftrightarrow> globMatchesSomewhere notLineTerminator query title)
     \<and> ((\<forall>c\<in>set query. c \<noteq> CHR ''*'' \<and> c \<noteq> CHR ''?'') \<longrightarrow>
          (\<forall>title. regexp_test r title \<longleftrightarrow> sublist (toLowerCase query) (toLowerCase title)))"
  by (simp add: createSearchPattern_eq regexp_test_glob globMatchesSomewhere_literal)

theorem createSearchPattern_glob_witness:
  "\<exists>r. createSearchPattern ''View'' = Inr r \<and> regexp_test r ''MyViewController''
     \<and> \<not> regexp_test r ''Button''"
proof -
  have lit: "\<forall>c\<in>set ''View''. c \<noteq> CHR ''*'' \<and> c \<noteq> CHR ''?''"
    by simp
  have "toLowerCase ''MyViewController'' = ''my'' @ toLowerCase ''View'' @ ''controller''"
    by code_simp
  then have yes: "sublist (toLowerCase ''View'') (toLowerCase ''MyViewController'')"
    by (simp only: sublist_appendI)
  have no: "\<not> sublist (toLowerCase ''View'') (toLowerCase ''Button'')"
    by code_simp
  from createSearchPattern_glob [of "''View''"] lit yes no show ?thesis
    by blast
qed

text \<open>
  C4, as stated, lets a wildcard stand for an arbitrary character. The query \<open>a?b\<close>
  compiles to the expression \<open>a.b\<close>, which does not match the title made of \<open>a\<close>, a line
  feed and \<open>b\<close>; the glob of the claim matches it.
\<close>

theorem createSearchPattern_line_terminator_counterexample:
  "createSearchPattern ''a?b'' = Inr [One (Lit CHR ''a''), One AnyChar, One (Lit CHR ''b'')]
   \<and> \<not> regexp_test [One (Lit CHR ''a''), One AnyChar, One (Lit CHR ''b'')]
          [CHR ''a'', CHR 0x0A, CHR ''b'']
   \<and> globMatchesSomewhere anyCharacter ''a?b'' [CHR ''a'', CHR 0x0A, CHR ''b'']"
proof -
  have "globMatches anyCharacter ''a?b'' (take 3 (drop 0 [CHR ''a'', CHR 0x0A, CHR ''b'']))"
    by (simp add: anyCharacter_def toLowerChar_def)
  then have "globMatchesSomewhere anyCharacter ''a?b'' [CHR ''a'', CHR 0x0A, CHR ''b'']"
    unfolding globMatchesSomewhere_def by (intro bexI [of _ 0] bexI [of _ 3]) simp_all
  moreover have "\<not> regexp_test [One (Lit CHR ''a''), One AnyChar, One (Lit CHR ''b'')]
          [CHR ''a'', CHR 0x0A, CHR ''b'']"
    by (simp add: lineTerminator_def toUpperChar_def)
  ultimately show ?thesis
    by (simp add: createSearchPattern_eq globTerm_def)
qed

text \<open>
  C9. For every input string, also one with the metacharacters of regular expressions,
  \<open>createSearchPattern\<close> returns a compiled expression and does not throw.
\<close>

theorem createSearchPattern_never_throws: "\<exists>r. createSearchPattern query = Inr r"
  by (simp add: createSearchPattern_eq)

theorem createSearchPattern_never_throws_witness:
  "\<exists>r. createSearchPattern (''a.b+c(d)[e]{f}^$|*?'' @ [backslash]) = Inr r"
  by (rule createSearchPattern_never_throws)

section \<open>Claims about the reference filter\<close>

text \<open>
  C2, as amended. For every reference entry and every filter set whose platform filter is
  present and not empty, \<open>matchesSearch\<close> accepts the entry exactly when it accepts it
  without the platform filter and the entry either carries no platform data at all or
  carries a platform record whose name contains the filter value in either case. So an
  entry with a platform list is rejected unless one of its records matches, and an entry
  without platform data is not filtered by platform.
\<close>

theorem matchesSearch_platform:
  "platform options' = Some wanted \<Longrightarrow> wanted \<noteq> [] \<Longrightarrow>
     matchesSearch ref pattern options' \<longleftrightarrow>
       matchesSearch ref pattern (options'\<lparr>platform := None\<rparr>)
       \<and> (platforms ref = None \<or> carriesPlatform ref wanted)"
  by (auto simp: matchesSearch_def carriesPlatform_def includes_sublist
      split: option.splits)

theorem matchesSearch_platform_witness:
  "\<not> matchesSearch (reference ''Text'' ''struct'' (Some [macOS])) [One (Lit CHR ''T'')]
        \<lparr>symbolType = None, platform = Some ''ios'', maxResults = None\<rparr>
   \<and> matchesSearch (reference ''View'' ''protocol'' (Some [iOS])) [One (Lit CHR ''V'')]
        \<lparr>symbolType = None, platform = Some ''ios'', maxResults = None\<rparr>"
proof -
  let ?o = "\<lparr>symbolType = None, platform = Some ''ios'', maxResults = None\<rparr>"
  have no: "\<not> carriesPlatform (reference ''Text'' ''struct'' (Some [macOS])) ''ios''"
    and some: "platforms (reference ''Text'' ''struct'' (Some [macOS])) \<noteq> None"
    by code_simp+
  have yes: "carriesPlatform (reference ''View'' ''protocol'' (Some [iOS])) ''ios''"
    and plain: "matchesSearch (reference ''View'' ''protocol'' (Some [iOS])) [One (Lit CHR ''V'')]
        (?o\<lparr>platform := None\<rparr>)"
    by code_simp+
  from matchesSearch_platform [of ?o "''ios''" "reference ''Text'' ''struct'' (Some [macOS])"
      "[One (Lit CHR ''T'')]"] no some
    matchesSearch_platform [of ?o "''ios''" "reference ''View'' ''protocol'' (Some [iOS])"
      "[One (Lit CHR ''V'')]"] yes plain
  show ?thesis by simp
qed

text \<open>
  C2, as stated, rejects an entry without platform data. The entry \<open>AnyView\<close> has a title
  that matches and no platform data; with the platform filter \<open>iOS\<close> it is accepted.
\<close>

theorem matchesSearch_no_platform_data_counterexample:
  "matchesSearch (reference ''AnyView'' ''struct'' None) [One (Lit CHR ''V'')]
        \<lparr>symbolType = None, platform = Some ''iOS'', maxResults = None\<rparr>
   \<and> \<not> carriesPlatform (reference ''AnyView'' ''struct'' None) ''iOS''"
  by code_simp

section \<open>Claims about framework search\<close>

text \<open>
  C5, as amended. When the framework document is obtained and has a reference table,
  \<open>searchFramework\<close> returns a list of at most \<open>ceil(maxResults)\<close> results, the least
  integer that is not below \<open>maxResults\<close>: at most \<open>maxResults\<close> results when
  \<open>maxResults\<close> is a whole number, and none when it is zero or negative. Every result is
  the result of an entry of the table that the reference filter accepts, the list is
  sorted by \<open>scoreMatch\<close> ascending, and the results of each score are, in the same order,
  the results of that score among the first \<open>ceil(maxResults)\<close> accepted entries in the
  order of the table: the sort is stable.
\<close>

theorem searchFramework_results:
  assumes "getFramework net frameworkName w = (Inr framework', w1)"
    and "references framework' = Some refs"
  shows "\<exists>results. searchFramework net frameworkName query options' w = (Inr results, w1)
     \<and> int (length results) \<le> max 0 \<lceil>effectiveMax 20 options'\<rceil>
     \<and> (effectiveMax 20 options' \<in> \<int> \<longrightarrow>
           of_nat (length results) \<le> max 0 (effectiveMax 20 options'))
     \<and> (\<forall>r \<in> set results. \<exists>ref \<in> set (map snd refs).
            accepts query options' ref \<and> r = resultOf frameworkName framework' ref)
     \<and> sorted (map (score query) results)
     \<and> (\<forall>k. filter (\<lambda>r. score query r = k) results =
              filter (\<lambda>r. score query r = k)
                (map (resultOf frameworkName framework')
                   (take (nat \<lceil>effectiveMax 20 options'\<rceil>)
                      (filter (accepts query options') (map snd refs)))))"
proof -
  let ?m = "effectiveMax 20 options'"
  let ?chosen = "take (nat \<lceil>?m\<rceil>) (filter (accepts query options') (map snd refs))"
  let ?collected = "map (resultOf frameworkName framework') ?chosen"
  let ?results = "sort_key (score query) ?collected"
  have run: "searchFramework net frameworkName query options' w = (Inr ?results, w1)"
    by (rule searchFramework_fetched [OF assms])
  have len: "int (length ?results) \<le> max 0 \<lceil>?m\<rceil>"
    by simp
  have whole: "?m \<in> \<int> \<longrightarrow> of_nat (length ?results) \<le> max 0 ?m"
  proof
    assume "?m \<in> \<int>"
    then obtain z where z: "?m = of_int z" by (rule Ints_cases)
    from len z have "int (length ?results) \<le> max 0 z" by simp
    then have "(of_int (int (length ?results)) :: real) \<le> of_int (max 0 z)"
      by (simp only: of_int_le_iff)
    with z show "of_nat (length ?results) \<le> max 0 ?m"
      by (simp add: max_def split: if_splits)
  qed
  have "set ?chosen \<subseteq> {ref \<in> set (map snd refs). accepts query options' ref}"
    using set_take_subset [of "nat \<lceil>?m\<rceil>"
        "filter (accepts query options') (map snd refs)"] by auto
  then have from_filter: "\<forall>r \<in> set ?results. \<exists>ref \<in> set (map snd refs).
            accepts query options' ref \<and> r = resultOf frameworkName framework' ref"
    by auto
  have srt: "sorted (map (score query) ?results)"
    by (rule sorted_sort_key)
  have stable: "\<forall>k. filter (\<lambda>r. score query r = k) ?results =
              filter (\<lambda>r. score query r = k) ?collected"
    by (simp add: sort_key_stable)
  from run len whole from_filter srt stable show ?thesis
    by blast
qed

theorem searchFramework_results_witness:
  "\<exists>results. fst (searchFramework exampleNet (Some ''SwiftUI'') ''View'' (plainOptions 2) startWorld)
       = Inr results
     \<and> int (length results) \<le> 2 \<and> sorted (map (score ''View'') results)"
proof -
  have "getFramework exampleNet (Some ''SwiftUI'') startWorld =
        (Inr exampleSwiftUI, snd (getFramework exampleNet (Some ''SwiftUI'') startWorld))"
    using example_getFramework by (simp add: prod_eq_iff)
  from searchFramework_results [OF this example_references, of "''View''" "plainOptions 2"]
  show ?thesis
    by (auto simp: effectiveMax_def plainOptions_def)
qed

text \<open>
  C5, as stated, bounds the number of results by \<open>maxResults\<close> for every value of it. The
  SwiftUI document of the example has three entries that the query \<open>View\<close> accepts; with
  \<open>maxResults\<close> at 2.5 the test \<open>results.length >= maxResults\<close> fails at the lengths 0, 1
  and 2, and the search returns three results.
\<close>

theorem searchFramework_fractional_counterexample:
  "map result_title
     (batch (fst (searchFramework exampleNet (Some ''SwiftUI'') ''View'' (plainOptions (5 / 2))
                    startWorld)))
     = [''View'', ''ViewBuilder'', ''AnyView'']
   \<and> (5 / 2 :: real)
       < of_nat (length (batch (fst (searchFramework exampleNet (Some ''SwiftUI'') ''View''
                                       (plainOptions (5 / 2)) startWorld))))"
proof -
  have fetched: "getFramework exampleNet (Some ''SwiftUI'') startWorld =
        (Inr exampleSwiftUI, snd (getFramework exampleNet (Some ''SwiftUI'') startWorld))"
    using example_getFramework by (simp add: prod_eq_iff)
  have cap: "nat \<lceil>effectiveMax 20 (plainOptions (5 / 2))\<rceil> = 3"
    by (simp add: effectiveMax_def plainOptions_def)
  have chosen: "map result_title
      (sort_key (score ''View'')
         (map (resultOf (Some ''SwiftUI'') exampleSwiftUI)
            (take 3 (filter (accepts ''View'' (plainOptions (5 / 2)))
               (map snd [(''r1'', reference ''AnyView'' ''struct'' None),
                         (''r2'', reference ''View'' ''protocol'' (Some [iOS])),
                         (''r3'', reference ''Text'' ''struct'' (Some [macOS])),
                         (''r4'', reference ''ViewBuilder'' ''struct'' None)])))))
      = [''View'', ''ViewBuilder'', ''AnyView'']"
    by code_simp
  from searchFramework_fetched [OF fetched example_references, of "''View''" "plainOptions (5 / 2)"]
    chosen
  have titles: "map result_title
     (batch (fst (searchFramework exampleNet (Some ''SwiftUI'') ''View'' (plainOptions (5 / 2))
                    startWorld)))
     = [''View'', ''ViewBuilder'', ''AnyView'']"
    by (simp add: cap batch_def)
  then have "length (map result_title
     (batch (fst (searchFramework exampleNet (Some ''SwiftUI'') ''View'' (plainOptions (5 / 2))
                    startWorld)))) = 3"
    by simp
  then have "length (batch (fst (searchFramework exampleNet (Some ''SwiftUI'') ''View''
                                   (plainOptions (5 / 2)) startWorld))) = 3"
    by (simp only: length_map)
  with titles show ?thesis
    by simp
qed

section \<open>Claims about the document cache\<close>

text \<open>
  C8. For every URL and every call of \<open>makeRequest\<close> that finds no entry of the URL within
  its time to live, so no entry at all or one that is ten minutes old or older: the call
  sends exactly one request. When the network answers with a document, the call returns
  that document and the entry of the URL becomes the document with the time of its
  arrival, an old entry being overwritten; and every later call for the URL, on any
  network, made less than ten minutes after that time and with the entry still in the
  cache, returns the same document and leaves the world as it is, so it sends no
  request. When the network answers with an error, the call throws and the cache stays as
  it is, the old entry included. In both cases the entries of all other URLs are
  untouched.
\<close>

theorem makeRequest_cache:
  assumes "\<forall>e. cache w u = Some e \<longrightarrow> cacheTimeout \<le> clock w - timestamp e"
  shows "(\<forall>d elapsed. net (requests w) u = (Inr d, elapsed) \<longrightarrow>
            (\<exists>w1. makeRequest net u w = (Inr d, w1)
               \<and> requests w1 = requests w @ [u]
               \<and> clock w1 = clock w + int elapsed
               \<and> cache w1 u = Some \<lparr>data = d, timestamp = clock w + int elapsed\<rparr>
               \<and> (\<forall>v. v \<noteq> u \<longrightarrow> cache w1 v = cache w v)
               \<and> (\<forall>net2 (w2::world).
                     cache w2 u = cache w1 u \<longrightarrow> clock w2 - clock w1 < cacheTimeout \<longrightarrow>
                       makeRequest net2 u w2 = (Inr d, w2))))
       \<and> (\<forall>err elapsed. net (requests w) u = (Inl err, elapsed) \<longrightarrow>
            (\<exists>w1. makeRequest net u w =
                     (Inl (Error (''Failed to fetch documentation: '' @ err)), w1)
               \<and> requests w1 = requests w @ [u]
               \<and> cache w1 = cache w))"
proof (rule conjI)
  from assms have nf: "\<not> fresh w u"
    by (auto simp: fresh_def split: option.splits)
  show "\<forall>d elapsed. net (requests w) u = (Inr d, elapsed) \<longrightarrow>
            (\<exists>w1. makeRequest net u w = (Inr d, w1)
               \<and> requests w1 = requests w @ [u]
               \<and> clock w1 = clock w + int elapsed
               \<and> cache w1 u = Some \<lparr>data = d, timestamp = clock w + int elapsed\<rparr>
               \<and> (\<forall>v. v \<noteq> u \<longrightarrow> cache w1 v = cache w v)
               \<and> (\<forall>net2 (w2::world).
                     cache w2 u = cache w1 u \<longrightarrow> clock w2 - clock w1 < cacheTimeout \<longrightarrow>
                       makeRequest net2 u w2 = (Inr d, w2)))"
  proof (intro allI impI)
    fix d elapsed
    assume answer: "net (requests w) u = (Inr d, elapsed)"
    define w0 where "w0 = w\<lparr>clock := clock w + int elapsed, requests := requests w @ [u]\<rparr>"
    define w1 where "w1 = w0\<lparr>cache := (cache w0)(u \<mapsto> \<lparr>data = d, timestamp = clock w0\<rparr>)\<rparr>"
    from answer have ax: "axios_get net u w = (Inr d, w0)"
      by (simp add: axios_get_def w0_def)
    with nf have run: "makeRequest net u w = (Inr d, w1)"
      by (simp add: makeRequest_not_fresh w1_def)
    have later: "\<forall>net2 (w2::world).
        cache w2 u = cache w1 u \<longrightarrow> clock w2 - clock w1 < cacheTimeout \<longrightarrow>
          makeRequest net2 u w2 = (Inr d, w2)"
    proof (intro allI impI)
      fix net2 and w2 :: world
      assume same: "cache w2 u = cache w1 u" and t: "clock w2 - clock w1 < cacheTimeout"
      then have "fresh w2 u" and "cache w2 u = Some \<lparr>data = d, timestamp = clock w0\<rparr>"
        by (simp_all add: fresh_def w1_def)
      with makeRequest_fresh [of w2 u net2] show "makeRequest net2 u w2 = (Inr d, w2)"
        by auto
    qed
    from run later show "\<exists>w1. makeRequest net u w = (Inr d, w1)
               \<and> requests w1 = requests w @ [u]
               \<and> clock w1 = clock w + int elapsed
               \<and> cache w1 u = Some \<lparr>data = d, timestamp = clock w + int elapsed\<rparr>
               \<and> (\<forall>v. v \<noteq> u \<longrightarrow> cache w1 v = cache w v)
               \<and> (\<forall>net2 (w2::world).
                     cache w2 u = cache w1 u \<longrightarrow> clock w2 - clock w1 < cacheTimeout \<longrightarrow>
                       makeRequest net2 u w2 = (Inr d, w2))"
      by (intro exI [of _ w1]) (simp add: w1_def w0_def)
  qed
  show "\<forall>err elapsed. net (requests w) u = (Inl err, elapsed) \<longrightarrow>
            (\<exists>w1. makeRequest net u w =
                     (Inl (Error (''Failed to fetch documentation: '' @ err)), w1)
               \<and> requests w1 = requests w @ [u]
               \<and> cache w1 = cache w)"
  proof (intro allI impI)
    fix err elapsed
    assume answer: "net (requests w) u = (Inl err, elapsed)"
    define w0 where "w0 = w\<lparr>clock := clock w + int elapsed, requests := requests w @ [u]\<rparr>"
    from answer have "axios_get net u w = (Inl err, w0)"
      by (simp add: axios_get_def w0_def)
    with nf have "makeRequest net u w =
        (Inl (Error (''Failed to fetch documentation: '' @ err)), w0)"
      by (simp add: makeRequest_not_fresh)
    then show "\<exists>w1. makeRequest net u w =
                     (Inl (Error (''Failed to fetch documentation: '' @ err)), w1)
               \<and> requests w1 = requests w @ [u]
               \<and> cache w1 = cache w"
      by (intro exI [of _ w0]) (simp add: w0_def)
  qed
qed

theorem makeRequest_cache_witness:
  "makeRequest exampleNet indexURL
      \<lparr>cache = [indexURL \<mapsto> \<lparr>data = exampleIndex, timestamp = 40\<rparr>], clock = 599999,
       requests = [indexURL]\<rparr>
    = (Inr exampleIndex,
       \<lparr>cache = [indexURL \<mapsto> \<lparr>data = exampleIndex, timestamp = 40\<rparr>], clock = 599999,
        requests = [indexURL]\<rparr>)
   \<and> makeRequest exampleNet indexURL
        \<lparr>cache = [indexURL \<mapsto> \<lparr>data = exampleSwiftUI, timestamp = 40\<rparr>], clock = 600040,
         requests = [indexURL]\<rparr>
    = (Inr exampleIndex,
       \<lparr>cache = [indexURL \<mapsto> \<lparr>data = exampleIndex, timestamp = 600080\<rparr>], clock = 600080,
        requests = [indexURL, indexURL]\<rparr>)"
proof -
  let ?w1 = "\<lparr>cache = [indexURL \<mapsto> \<lparr>data = exampleIndex, timestamp = 40\<rparr>], clock = 40,
       requests = [indexURL]\<rparr>"
  let ?stale = "\<lparr>cache = [indexURL \<mapsto> \<lparr>data = exampleSwiftUI, timestamp = 40\<rparr>],
       clock = 600040, requests = [indexURL]\<rparr>"
  have cold: "\<forall>e. cache startWorld indexURL = Some e \<longrightarrow>
      cacheTimeout \<le> clock startWorld - timestamp e"
    by (simp add: startWorld_def)
  have answer: "exampleNet sent indexURL = (Inr exampleIndex, 40)" for sent
    by (simp add: exampleNet_def indexURL_def)
  from makeRequest_cache [OF cold, of exampleNet] answer [of "requests startWorld"] example_first
  have "makeRequest exampleNet indexURL (?w1\<lparr>clock := 599999\<rparr>)
        = (Inr exampleIndex, ?w1\<lparr>clock := 599999\<rparr>)"
    by (auto simp: cacheTimeout_def)
  moreover
  have old: "\<forall>e. cache ?stale indexURL = Some e \<longrightarrow> cacheTimeout \<le> clock ?stale - timestamp e"
    by (simp add: cacheTimeout_def)
  from makeRequest_cache [OF old, of exampleNet] answer [of "requests ?stale"]
  obtain w1 where "makeRequest exampleNet indexURL ?stale = (Inr exampleIndex, w1)"
    and "requests w1 = [indexURL, indexURL]" and "clock w1 = 600080"
    and "cache w1 indexURL = Some \<lparr>data = exampleIndex, timestamp = 600080\<rparr>"
    and "\<forall>v. v \<noteq> indexURL \<longrightarrow> cache w1 v = cache ?stale v"
    by auto
  then have "makeRequest exampleNet indexURL ?stale
    = (Inr exampleIndex,
       \<lparr>cache = [indexURL \<mapsto> \<lparr>data = exampleIndex, timestamp = 600080\<rparr>], clock = 600080,
        requests = [indexURL, indexURL]\<rparr>)"
    by (cases w1) (auto simp: fun_eq_iff)
  ultimately show ?thesis by simp
qed

section \<open>Claims about global search\<close>

text \<open>
  C6. \<open>searchGlobal\<close> throws exactly when the fetch of the technology index fails, and
  then with the message \<open>Global search failed\<close>. When the index is obtained it returns a
  list, whatever the searches of the candidate frameworks do: the list has at most
  \<open>maxResults\<close> entries (none for a negative \<open>maxResults\<close>) and is made of the results of
  the visited frameworks whose search returned, in the order of the visits, cut to
  \<open>maxResults\<close>; a framework whose search throws contributes nothing and does not stop
  the loop.
\<close>

theorem searchGlobal_degrades:
  "(\<forall>e w1. getTechnologies net w = (Inl e, w1) \<longrightarrow>
      searchGlobal net query options' w =
        (Inl (Error (''Global search failed: '' @ errorToString e)), w1))
   \<and> (\<forall>technologies w1. getTechnologies net w = (Inr technologies, w1) \<longrightarrow>
         (\<exists>results. fst (searchGlobal net query options' w) = Inr results
            \<and> of_nat (length results) \<le> max 0 (effectiveMax 50 options')
            \<and> results =
                take (nat \<lfloor>effectiveMax 50 options'\<rfloor>)
                  (gathered (filter succeeded
                     (visits net query options' (effectiveMax 50 options')
                        (candidates technologies) 0 w1)))))"
proof (intro conjI allI impI)
  fix e w1
  assume "getTechnologies net w = (Inl e, w1)"
  then show "searchGlobal net query options' w =
        (Inl (Error (''Global search failed: '' @ errorToString e)), w1)"
    by (rule searchGlobal_failed)
next
  fix technologies w1
  assume "getTechnologies net w = (Inr technologies, w1)"
  from searchGlobal_fetched [OF this, of query options']
  show "\<exists>results. fst (searchGlobal net query options' w) = Inr results
            \<and> of_nat (length results) \<le> max 0 (effectiveMax 50 options')
            \<and> results =
                take (nat \<lfloor>effectiveMax 50 options'\<rfloor>)
                  (gathered (filter succeeded
                     (visits net query options' (effectiveMax 50 options')
                        (candidates technologies) 0 w1)))"
    using take_floor_cap [of "effectiveMax 50 options'"]
    by (simp add: gathered_succeeded)
qed

theorem searchGlobal_degrades_witness:
  "\<exists>results. fst (searchGlobal exampleNet ''*View*'' (plainOptions 20) startWorld) = Inr results
     \<and> int (length results) \<le> 20
     \<and> map result_title results = [''View'', ''ViewBuilder'', ''AnyView'', ''NSViewController'']"
proof -
  have run: "map result_title (take 20 (gathered (filter succeeded
          (visits exampleNet ''*View*'' (plainOptions 20) 20
             (candidates [(''t1'', technology ''SwiftUI'' ''symbol'' ''collection''),
          (''t2'', technology ''Swift Book'' ''article'' ''article''),
          (''t3'', technology ''UIKit'' ''symbol'' ''collection''),
          (''t4'', technology ''Foundation'' ''symbol'' ''collection'')]) 0
             (snd (getTechnologies exampleNet startWorld))))))
        = [''View'', ''ViewBuilder'', ''AnyView'', ''NSViewController'']"
    by code_simp
  have "getTechnologies exampleNet startWorld =
        (Inr [(''t1'', technology ''SwiftUI'' ''symbol'' ''collection''),
          (''t2'', technology ''Swift Book'' ''article'' ''article''),
          (''t3'', technology ''UIKit'' ''symbol'' ''collection''),
          (''t4'', technology ''Foundation'' ''symbol'' ''collection'')],
         snd (getTechnologies exampleNet startWorld))"
    using example_getTechnologies by (simp add: prod_eq_iff)
  with searchGlobal_degrades [of exampleNet startWorld "''*View*''" "plainOptions 20"] run
  show ?thesis
    by (auto simp: effectiveMax_def plainOptions_def)
qed



section \<open>Claims about the documentation lookup\<close>

text \<open>
  C1, as amended. In the distributed build, when the fetch of the symbol document fails:
  if the technology index is obtained and has a technology with a non-empty title that
  matches the cleaned path or its first segment, the lookup answers with a guidance
  payload and not an error, the framework-detected payload when the document of the first
  such technology is obtained and has topic sections, the not-found payload otherwise; if
  no technology matches, or the index is not obtained, the error of the fetch is thrown
  again and reaches the caller as an internal error that carries its message. In the
  TypeScript source the lookup has no fallback, and every failed fetch reaches the caller
  as that internal error.
\<close>

theorem callGetDocumentation_fallback:
  assumes "getSymbol net path' w = (Inl error, w1)"
  shows "(case getTechnologies net w1 of
            (Inl e, w2) \<Rightarrow> callGetDocumentation net path' w = (Inl (toMcpError error), w2)
          | (Inr technologies, w2) \<Rightarrow>
              (case find (detectable path') (map snd technologies) of
                 None \<Rightarrow> callGetDocumentation net path' w = (Inl (toMcpError error), w2)
               | Some tech \<Rightarrow>
                   (case getFramework net (title tech) w2 of
                      (Inl e, w3) \<Rightarrow>
                        callGetDocumentation net path' w = (Inr (SymbolNotFound path'), w3)
                    | (Inr d, w3) \<Rightarrow>
                        (\<exists>response. callGetDocumentation net path' w = (Inr response, w3)
                           \<and> (if topicSections d = None then response = SymbolNotFound path'
                               else isFrameworkDetected response)))))
         \<and> callGetSymbol net path' w = (Inl (toMcpError error), w1)
         \<and> (\<exists>err. toMcpError error =
                McpError InternalError
                  (''Error executing tool: Failed to fetch documentation: '' @ err))"
proof (intro conjI)
  show "callGetSymbol net path' w = (Inl (toMcpError error), w1)"
    using assms by (simp add: callGetSymbol_def handleGetSymbol_def)
  from getSymbol_failure [OF assms]
  show "\<exists>err. toMcpError error =
                McpError InternalError
                  (''Error executing tool: Failed to fetch documentation: '' @ err)"
    by (auto simp: toMcpError_def)
  show "case getTechnologies net w1 of
            (Inl e, w2) \<Rightarrow> callGetDocumentation net path' w = (Inl (toMcpError error), w2)
          | (Inr technologies, w2) \<Rightarrow>
              (case find (detectable path') (map snd technologies) of
                 None \<Rightarrow> callGetDocumentation net path' w = (Inl (toMcpError error), w2)
               | Some tech \<Rightarrow>
                   (case getFramework net (title tech) w2 of
                      (Inl e, w3) \<Rightarrow>
                        callGetDocumentation net path' w = (Inr (SymbolNotFound path'), w3)
                    | (Inr d, w3) \<Rightarrow>
                        (\<exists>response. callGetDocumentation net path' w = (Inr response, w3)
                           \<and> (if topicSections d = None then response = SymbolNotFound path'
                               else isFrameworkDetected response))))"
    using assms
    by (auto simp: callGetDocumentation_def handleGetDocumentation_def checkIfTechnology_def
        handleTechnologyFallback_def findTechnology_find Let_def
        dest: find_detectable_title
        split: prod.splits sum.splits option.splits)
qed

theorem callGetDocumentation_fallback_witness:
  "\<exists>response. fst (callGetDocumentation exampleNet ''SwiftUI'' startWorld) = Inr response
      \<and> isFrameworkDetected response"
proof -
  have sections: "topicSections exampleSwiftUI \<noteq> None"
    by (simp add: exampleSwiftUI_def)
  let ?tech = "technology ''SwiftUI'' ''symbol'' ''collection''"
  from callGetDocumentation_fallback [OF example_getSymbol]
  have "case getFramework exampleNet (title ?tech) afterIndex of
          (Inl e, w3) \<Rightarrow>
            callGetDocumentation exampleNet ''SwiftUI'' startWorld = (Inr (SymbolNotFound ''SwiftUI''), w3)
        | (Inr d, w3) \<Rightarrow>
            (\<exists>response. callGetDocumentation exampleNet ''SwiftUI'' startWorld = (Inr response, w3)
               \<and> (if topicSections d = None then response = SymbolNotFound ''SwiftUI''
                   else isFrameworkDetected response))"
    by (simp only: example_index_after example_detect prod.case sum.case option.case)
  with sections example_framework_after show ?thesis
    by (auto simp: split_beta)
qed

text \<open>
  C1, as stated, promises the not-found payload when no technology matches, the
  framework-detected payload whenever one matches, and no surfaced fetch error. With the
  example upstream the path \<open>NotARealThing123\<close> matches no technology and the caller gets
  the internal error with the message of the fetch; the path \<open>UIKit\<close> matches a technology
  whose document cannot be fetched and the answer is the not-found payload; and the
  lookup of the TypeScript source answers the path \<open>SwiftUI\<close> with the internal error.
\<close>

theorem callGetDocumentation_unmatched_counterexample:
  "fst (callGetDocumentation exampleNet ''NotARealThing123'' startWorld) =
     Inl (McpError InternalError
       ''Error executing tool: Failed to fetch documentation: AxiosError: Request failed with status code 404'')
   \<and> fst (callGetDocumentation exampleNet ''UIKit'' startWorld) = Inr (SymbolNotFound ''UIKit'')
   \<and> fst (callGetSymbol exampleNet ''SwiftUI'' startWorld) =
     Inl (McpError InternalError
       ''Error executing tool: Failed to fetch documentation: AxiosError: Request failed with status code 404'')"
  by code_simp

end
